theory Spec2Isabelle
  imports Main
begin

section \<open>JavaScript values and effects\<close>

text \<open>
  The scripts work on parsed JSON. A value is one of the JSON forms, or \<open>undefined\<close> (what
  reading a missing property gives). Numbers are the integers (a fractional number behaves
  like a non-zero integer in every test the scripts make). An object is the list of its own
  properties, read by key. Strings are lists of bytes; the only character the scripts
  look for is the ASCII \<open>@\<close>, which is a single byte and a single UTF-16 unit alike.
\<close>

datatype json =
    JUndefined
  | JNull
  | JBool bool
  | JNum int
  | JStr string
  | JArr "json list"
  | JObj "(string \<times> json) list"

text \<open>
  What the scripts can throw: the \<open>Error\<close> raised by the handle check of
  \<open>discoverActor\<close> (the spec calls it InvalidHandleFormat), a \<open>TypeError\<close> of the
  language (a property of \<open>null\<close>, a call of something that is no function, an object that
  has no string form), and the rejection of \<open>axios.get\<close>: with no response (network error,
  timeout) or with a response whose status is outside 2xx.
\<close>

datatype axios_failure = NoResponse string | BadStatus nat json

datatype js_error = InvalidHandleFormat | TypeError | AxiosError axios_failure

text \<open>Truthiness, as \<open>!x\<close>, \<open>if (x)\<close> and \<open>x || y\<close> test it.\<close>

fun truthy :: "json \<Rightarrow> bool" where
  "truthy JUndefined = False"
| "truthy JNull = False"
| "truthy (JBool b) = b"
| "truthy (JNum n) = (n \<noteq> 0)"
| "truthy (JStr s) = (s \<noteq> [])"
| "truthy (JArr xs) = True"
| "truthy (JObj kvs) = True"

definition js_or :: "json \<Rightarrow> json \<Rightarrow> json" where
  "js_or a b = (if truthy a then a else b)"

text \<open>
  Reading a data property \<open>v.k\<close>, for the keys the scripts read (\<open>links\<close>, \<open>type\<close>,
  \<open>href\<close>, \<open>outbox\<close>, \<open>first\<close>, \<open>totalItems\<close>, \<open>orderedItems\<close>, \<open>items\<close>,
  \<open>published\<close>, \<open>object\<close>, \<open>content\<close>): a TypeError on \<open>null\<close> and \<open>undefined\<close>, the
  property of an object or \<open>undefined\<close> when it has none, and \<open>undefined\<close> on a string, a
  number, a boolean or an array, whose prototypes have none of these keys.
\<close>

fun getProp :: "json \<Rightarrow> string \<Rightarrow> js_error + json" where
  "getProp JUndefined k = Inl TypeError"
| "getProp JNull k = Inl TypeError"
| "getProp (JObj kvs) k = Inr (case map_of kvs k of None \<Rightarrow> JUndefined | Some v \<Rightarrow> v)"
| "getProp v k = Inr JUndefined"

text \<open>
  A value interpolated into a template literal is converted to a string, and an argument
  of \<open>Math.min\<close> to a number. For parsed JSON either conversion fails in one case only:
  an object that has an own property \<open>toString\<close> (which is data, not a function) has no
  primitive form, and the conversion throws a TypeError. An array is joined from the
  string forms of its elements.
\<close>

fun printable :: "json \<Rightarrow> bool" where
  "printable (JObj kvs) = (map_of kvs ''toString'' = None)"
| "printable (JArr xs) = list_all printable xs"
| "printable v = True"

text \<open>
  \<open>s.split(c)\<close> for a one-character separator: the pieces between the occurrences of
  \<open>c\<close>; the empty string gives one empty piece.
\<close>

fun str_split :: "char \<Rightarrow> string \<Rightarrow> string list" where
  "str_split c [] = [[]]"
| "str_split c (x # xs) =
     (if x = c then [] # str_split c xs
      else (case str_split c xs of [] \<Rightarrow> [[x]] | p # ps \<Rightarrow> (x # p) # ps))"

text \<open>\<open>xs[i]\<close> of an array pattern: the element, or \<open>undefined\<close> (here \<open>None\<close>) past the end.\<close>

definition nth_opt :: "'a list \<Rightarrow> nat \<Rightarrow> 'a option" where
  "nth_opt xs i = (if i < length xs then Some (xs ! i) else None)"

definition falsy_str :: "string option \<Rightarrow> bool" where
  "falsy_str s = (case s of None \<Rightarrow> True | Some t \<Rightarrow> t = [])"

definition tpl_str :: "string option \<Rightarrow> string" where
  "tpl_str s = (case s of None \<Rightarrow> ''undefined'' | Some t \<Rightarrow> t)"

subsection \<open>The world: requests made and lines printed\<close>

text \<open>
  A request is one call of \<open>axios.get\<close>: the URL passed (any value: the scripts pass on
  what they read from a document) and the \<open>headers\<close> and \<open>timeout\<close> of its configuration.
\<close>

record request =
  url :: json
  headers :: "(string \<times> string) list"
  timeout :: nat

datatype chan = Log | Err

text \<open>
  A printed line is named by the place that prints it and carries the values the line
  interpolates; colours and the wording of the text are left out.
\<close>

datatype line =
    Discovering string
  | MakingRequest string
  | DiscoverySuccessful
  | ResponseDataTitle
  | ResponseData json
  | ActorUrlFound json
  | DiscoveryFailed string
  | ErrorMessage js_error
  | ResponseStatus nat
  | ResponseBody json
  | Rule nat
  | Blank
  | Skipping string
  | StartingTests
  | StartingActorTests
  | ModifyHint
  | ExampleHint
  | FetchingActor json
  | ActorFetched
  | ActorFetchFailed json
  | Analysis string
  | NoOutboxUrl
  | FetchingOutbox json
  | OutboxFetched json
  | FirstPage json
  | RecentActivities int json
  | ActivityType nat json
  | ActivityPublished json
  | ActivityObjectType json
  | ActivityContent string
  | OutboxActivitiesFailed
  | OutboxFailed js_error
  | CompleteAnalysis string
  | NoActorUrl
  | AnalysisFailed js_error

record world =
  requests :: "request list"
  console :: "(chan \<times> line) list"

text \<open>
  The network answers a request with a failure or with the parsed body; the answer may
  depend on the requests made before.
\<close>

type_synonym net = "request list \<Rightarrow> request \<Rightarrow> axios_failure + json"

type_synonym 'a io = "world \<Rightarrow> (js_error + 'a) \<times> world"

definition io_ret :: "'a \<Rightarrow> 'a io" where
  "io_ret x w = (Inr x, w)"

definition io_throw :: "js_error \<Rightarrow> 'a io" where
  "io_throw e w = (Inl e, w)"

definition io_bind :: "'a io \<Rightarrow> ('a \<Rightarrow> 'b io) \<Rightarrow> 'b io" where
  "io_bind m f w = (case m w of (Inl e, w') \<Rightarrow> (Inl e, w') | (Inr x, w') \<Rightarrow> f x w')"

definition io_try :: "'a io \<Rightarrow> (js_error \<Rightarrow> 'a io) \<Rightarrow> 'a io" where
  "io_try m h w = (case m w of (Inl e, w') \<Rightarrow> h e w' | (Inr x, w') \<Rightarrow> (Inr x, w'))"

definition io_lift :: "js_error + 'a \<Rightarrow> 'a io" where
  "io_lift r w = (r, w)"

definition console_log :: "line \<Rightarrow> unit io" where
  "console_log l w = (Inr (), w\<lparr>console := console w @ [(Log, l)]\<rparr>)"

definition console_error :: "line \<Rightarrow> unit io" where
  "console_error l w = (Inr (), w\<lparr>console := console w @ [(Err, l)]\<rparr>)"

definition interpolate :: "json \<Rightarrow> unit io" where
  "interpolate v = (if printable v then io_ret () else io_throw TypeError)"

definition axios_get :: "net \<Rightarrow> json \<Rightarrow> (string \<times> string) list \<Rightarrow> nat \<Rightarrow> json io" where
  "axios_get net u hs t w =
     (let r = \<lparr>url = u, headers = hs, timeout = t\<rparr>
      in (case net (requests w) r of Inl f \<Rightarrow> Inl (AxiosError f) | Inr d \<Rightarrow> Inr d,
          w\<lparr>requests := requests w @ [r]\<rparr>))"

section \<open>WebFinger discovery (01-webfinger-discovery.js)\<close>

record discovery =
  handle :: string
  webfingerData :: json
  actorUrl :: json

definition webfinger_headers :: "(string \<times> string) list" where
  "webfinger_headers =
     [(''Accept'', ''application/jrd+json''), (''User-Agent'', ''ActivityPub-Learning-Setup/1.0'')]"

text \<open>
  \<open>links.find(link => link.type === 'application/activity+json')\<close>: the first element the
  test accepts, \<open>undefined\<close> when there is none; the test throws on a \<open>null\<close> element.
\<close>

fun find_link :: "json list \<Rightarrow> js_error + json" where
  "find_link [] = Inr JUndefined"
| "find_link (l # ls) =
     (case getProp l ''type'' of
        Inl e \<Rightarrow> Inl e
      | Inr t \<Rightarrow> if t = JStr ''application/activity+json'' then Inr l else find_link ls)"

text \<open>
  \<open>response.data.links?.find(...)?.href\<close>. A \<open>links\<close> that is neither missing nor an array
  has no function \<open>find\<close>, and calling it throws.
\<close>

definition extract_actorUrl :: "json \<Rightarrow> js_error + json" where
  "extract_actorUrl data =
     (case getProp data ''links'' of
        Inl e \<Rightarrow> Inl e
      | Inr links \<Rightarrow>
          if links = JUndefined \<or> links = JNull then Inr JUndefined
          else (case links of
                  JArr ls \<Rightarrow>
                    (case find_link ls of
                       Inl e \<Rightarrow> Inl e
                     | Inr l \<Rightarrow> if l = JUndefined \<or> l = JNull then Inr JUndefined
                                else getProp l ''href'')
                | _ \<Rightarrow> Inl TypeError))"

definition discoverActor_catch :: "string \<Rightarrow> js_error \<Rightarrow> discovery io" where
  "discoverActor_catch h error =
     io_bind (console_error (DiscoveryFailed h)) (\<lambda>_.
     io_bind (console_error (ErrorMessage error)) (\<lambda>_.
     io_bind (case error of
                AxiosError (BadStatus st body) \<Rightarrow>
                  io_bind (console_error (ResponseStatus st)) (\<lambda>_.
                    console_error (ResponseBody body))
              | _ \<Rightarrow> io_ret ()) (\<lambda>_.
     io_throw error)))"

definition discoverActor :: "net \<Rightarrow> string \<Rightarrow> discovery io" where
  "discoverActor net h =
     io_bind (console_log (Discovering h)) (\<lambda>_.
       let parts = str_split CHR ''@'' h;
           username = nth_opt parts 0;
           domain = nth_opt parts 1
       in if falsy_str username \<or> falsy_str domain then io_throw InvalidHandleFormat
          else
            let webfingerUrl =
                  ''https://'' @ tpl_str domain @ ''/.well-known/webfinger?resource=acct:'' @ h
            in io_try
                 (io_bind (console_log (MakingRequest webfingerUrl)) (\<lambda>_.
                  io_bind (axios_get net (JStr webfingerUrl) webfinger_headers 10000) (\<lambda>data.
                  io_bind (console_log DiscoverySuccessful) (\<lambda>_.
                  io_bind (console_log ResponseDataTitle) (\<lambda>_.
                  io_bind (console_log (ResponseData data)) (\<lambda>_.
                  io_bind (io_lift (extract_actorUrl data)) (\<lambda>a.
                  io_bind (if truthy a
                           then io_bind (interpolate a) (\<lambda>_. console_log (ActorUrlFound a))
                           else io_ret ()) (\<lambda>_.
                  io_ret \<lparr>handle = h, webfingerData = data, actorUrl = a\<rparr>))))))))
                 (discoverActor_catch h))"

text \<open>
  The loop of \<open>runWebFingerTests\<close>, over the accounts it is given: each account is tried
  inside its own \<open>try\<close>, and the handler only prints.
\<close>

fun runWebFingerTests_loop :: "net \<Rightarrow> string list \<Rightarrow> unit io" where
  "runWebFingerTests_loop net [] = io_ret ()"
| "runWebFingerTests_loop net (account # rest) =
     io_bind (io_try
                (io_bind (console_log (Rule 50)) (\<lambda>_.
                 io_bind (discoverActor net account) (\<lambda>_.
                 console_log Blank)))
                (\<lambda>error. console_log (Skipping account))) (\<lambda>_.
     runWebFingerTests_loop net rest)"

definition testAccounts :: "string list" where
  "testAccounts = [''Gargron@mastodon.social'', ''dansup@pixelfed.social'']"

definition runWebFingerTests :: "net \<Rightarrow> unit io" where
  "runWebFingerTests net =
     io_bind (console_log StartingTests) (\<lambda>_.
     io_bind (runWebFingerTests_loop net testAccounts) (\<lambda>_.
     io_bind (console_log ModifyHint) (\<lambda>_.
     console_log ExampleHint)))"

section \<open>Actor profiles (03-actor-profile.js)\<close>

definition actor_headers :: "(string \<times> string) list" where
  "actor_headers =
     [(''Accept'', ''application/activity+json, application/ld+json''),
      (''User-Agent'', ''ActivityPub-Learning-Setup/1.0'')]"

text \<open>
  \<open>fetchActor(actorUrl)\<close>; the argument is written \<open>theActorUrl\<close> here, \<open>actorUrl\<close> being
  the field of the discovery result.
\<close>

definition fetchActor :: "net \<Rightarrow> json \<Rightarrow> json io" where
  "fetchActor net theActorUrl =
     io_bind (interpolate theActorUrl) (\<lambda>_.
     io_bind (console_log (FetchingActor theActorUrl)) (\<lambda>_.
     io_try
       (io_bind (axios_get net theActorUrl actor_headers 10000) (\<lambda>data.
        io_bind (console_log ActorFetched) (\<lambda>_.
        io_ret data)))
       (\<lambda>error.
        io_bind (interpolate theActorUrl) (\<lambda>_.
        io_bind (console_error (ActorFetchFailed theActorUrl)) (\<lambda>_.
        io_bind (console_error (ErrorMessage error)) (\<lambda>_.
        io_throw error))))))"

text \<open>
  \<open>analyzeActor\<close> makes no request and returns nothing: it prints the fields of the actor
  and may throw a TypeError on a document that is not shaped like an actor. What it prints
  for an actor, and whether it throws, is a parameter of the model.
\<close>

type_synonym printer = "json \<Rightarrow> string list \<times> js_error option"

definition analyzeActor :: "printer \<Rightarrow> json \<Rightarrow> unit io" where
  "analyzeActor p actor w =
     (case snd (p actor) of None \<Rightarrow> Inr () | Some e \<Rightarrow> Inl e,
      w\<lparr>console := console w @ map (\<lambda>s. (Log, Analysis s)) (fst (p actor))\<rparr>)"

text \<open>
  The callback of \<open>forEach\<close> in \<open>fetchActorOutbox\<close>. \<open>content.replace\<close> is a function
  only when \<open>content\<close> is a string.
\<close>

definition showActivity :: "nat \<Rightarrow> json \<Rightarrow> unit io" where
  "showActivity index activity =
     io_bind (io_lift (getProp activity ''type'')) (\<lambda>t.
     io_bind (interpolate t) (\<lambda>_.
     io_bind (console_log (ActivityType (index + 1) t)) (\<lambda>_.
     io_bind (io_lift (getProp activity ''published'')) (\<lambda>p.
     io_bind (interpolate p) (\<lambda>_.
     io_bind (console_log (ActivityPublished p)) (\<lambda>_.
     io_bind (io_lift (getProp activity ''object'')) (\<lambda>obj.
     io_bind (if truthy obj then io_lift (getProp obj ''type'') else io_ret obj) (\<lambda>c.
     if truthy c then
       io_bind (io_lift (getProp obj ''type'')) (\<lambda>ot.
       io_bind (interpolate ot) (\<lambda>_.
       io_bind (console_log (ActivityObjectType ot)) (\<lambda>_.
       io_bind (io_lift (getProp obj ''content'')) (\<lambda>content.
       if truthy content then
         (case content of
            JStr s \<Rightarrow> console_log (ActivityContent s)
          | _ \<Rightarrow> io_throw TypeError)
       else io_ret ()))))
     else io_ret ()))))))))"

fun forEach_from :: "nat \<Rightarrow> json list \<Rightarrow> unit io" where
  "forEach_from index [] = io_ret ()"
| "forEach_from index (activity # rest) =
     io_bind (showActivity index activity) (\<lambda>_. forEach_from (Suc index) rest)"

text \<open>
  \<open>firstPageResponse.data.orderedItems || firstPageResponse.data.items || []\<close>.
\<close>

definition page_activities :: "json \<Rightarrow> js_error + json" where
  "page_activities page =
     (case getProp page ''orderedItems'' of
        Inl e \<Rightarrow> Inl e
      | Inr oi \<Rightarrow>
          (case (if truthy oi then Inr oi else getProp page ''items'') of
             Inl e \<Rightarrow> Inl e
           | Inr a \<Rightarrow> Inr (js_or a (JArr []))))"

text \<open>
  The array \<open>activities.slice(0, limit)\<close> that \<open>forEach\<close> is called on. A negative
  \<open>limit\<close> counts from the end. Of the truthy values only an array has both \<open>slice\<close> and
  \<open>forEach\<close> (a string has \<open>slice\<close> but no \<open>forEach\<close>), and nothing is printed between the
  two calls, so every other value is a TypeError.
\<close>

fun sliced :: "json \<Rightarrow> int \<Rightarrow> js_error + json list" where
  "sliced (JArr xs) limit =
     Inr (take (nat (if limit < 0 then int (length xs) + limit else limit)) xs)"
| "sliced v limit = Inl TypeError"

text \<open>
  \<open>activities.length\<close>, which \<open>Math.min(limit, activities.length)\<close> converts to a number:
  the length of an array or a string, the property \<open>length\<close> of an object, \<open>undefined\<close> of
  a number or a boolean (the value is never \<open>null\<close> here). The line printed shows the
  smaller of the two numbers; the model keeps \<open>limit\<close> and the activities.
\<close>

fun length_of :: "json \<Rightarrow> json" where
  "length_of (JArr xs) = JNum (int (length xs))"
| "length_of (JStr s) = JNum (int (length s))"
| "length_of (JObj kvs) = (case map_of kvs ''length'' of None \<Rightarrow> JUndefined | Some v \<Rightarrow> v)"
| "length_of v = JUndefined"

text \<open>The inner \<open>try\<close> of \<open>fetchActorOutbox\<close>: the fetch of the first page and its display.\<close>

definition fetchFirstPage :: "net \<Rightarrow> json \<Rightarrow> int \<Rightarrow> unit io" where
  "fetchFirstPage net first limit =
     io_try
       (io_bind (axios_get net first actor_headers 10000) (\<lambda>page.
        io_bind (io_lift (page_activities page)) (\<lambda>activities.
        io_bind (interpolate (length_of activities)) (\<lambda>_.
        io_bind (console_log (RecentActivities limit activities)) (\<lambda>_.
        io_bind (io_lift (sliced activities limit)) (\<lambda>shown.
        forEach_from 0 shown))))))
       (\<lambda>error. console_log OutboxActivitiesFailed)"

text \<open>
  \<open>fetchActorOutbox(outboxUrl, limit = 5)\<close>: \<open>None\<close> is the omitted argument. The function
  has no \<open>return\<close> with a value: what it returns is \<open>undefined\<close> on every path.
\<close>

definition fetchActorOutbox :: "net \<Rightarrow> json \<Rightarrow> int option \<Rightarrow> json io" where
  "fetchActorOutbox net outboxUrl limit_arg =
     (let limit = (case limit_arg of None \<Rightarrow> 5 | Some n \<Rightarrow> n)
      in if \<not> truthy outboxUrl
         then io_bind (console_log NoOutboxUrl) (\<lambda>_. io_ret JUndefined)
         else
           io_bind (interpolate outboxUrl) (\<lambda>_.
           io_bind (console_log (FetchingOutbox outboxUrl)) (\<lambda>_.
           io_bind (io_try
                      (io_bind (axios_get net outboxUrl actor_headers 10000) (\<lambda>outbox.
                       io_bind (io_lift (getProp outbox ''totalItems'')) (\<lambda>total.
                       io_bind (interpolate (js_or total (JStr ''unknown''))) (\<lambda>_.
                       io_bind (console_log (OutboxFetched (js_or total (JStr ''unknown'')))) (\<lambda>_.
                       io_bind (io_lift (getProp outbox ''first'')) (\<lambda>first.
                       if truthy first then
                         io_bind (interpolate first) (\<lambda>_.
                         io_bind (console_log (FirstPage first)) (\<lambda>_.
                         fetchFirstPage net first limit))
                       else io_ret ()))))))
                      (\<lambda>error. console_error (OutboxFailed error))) (\<lambda>_.
           io_ret JUndefined))))"

definition analyzeActorComplete :: "net \<Rightarrow> printer \<Rightarrow> string \<Rightarrow> json io" where
  "analyzeActorComplete net p h =
     io_try
       (io_bind (console_log (CompleteAnalysis h)) (\<lambda>_.
        io_bind (console_log (Rule 60)) (\<lambda>_.
        io_bind (discoverActor net h) (\<lambda>discovery.
        if \<not> truthy (actorUrl discovery)
        then io_bind (console_log NoActorUrl) (\<lambda>_. io_ret JUndefined)
        else
          io_bind (fetchActor net (actorUrl discovery)) (\<lambda>actor.
          io_bind (analyzeActor p actor) (\<lambda>_.
          io_bind (io_lift (getProp actor ''outbox'')) (\<lambda>outbox.
          io_bind (fetchActorOutbox net outbox (Some 3)) (\<lambda>_.
          io_ret JUndefined))))))))
       (\<lambda>error. io_bind (console_error (AnalysisFailed error)) (\<lambda>_. io_ret JUndefined))"

text \<open>The loop of \<open>runActorTests\<close>, over the accounts it is given.\<close>

fun runActorTests_loop :: "net \<Rightarrow> printer \<Rightarrow> string list \<Rightarrow> unit io" where
  "runActorTests_loop net p [] = io_ret ()"
| "runActorTests_loop net p (account # rest) =
     io_bind (analyzeActorComplete net p account) (\<lambda>_.
     io_bind (console_log (Rule 80)) (\<lambda>_.
     runActorTests_loop net p rest))"

definition runActorTests :: "net \<Rightarrow> printer \<Rightarrow> unit io" where
  "runActorTests net p =
     io_bind (console_log StartingActorTests) (\<lambda>_.
     runActorTests_loop net p [''Gargron@mastodon.social''])"

section \<open>Vocabulary of the properties\<close>

text \<open>
  The parts of a handle, read off the text itself: what stands before the first \<open>@\<close>
  (the username), and what stands between the first \<open>@\<close> and the next one, or the end
  (the domain).
\<close>

definition first_segment :: "string \<Rightarrow> string" where
  "first_segment h = takeWhile (\<lambda>c. c \<noteq> CHR ''@'') h"

definition second_segment :: "string \<Rightarrow> string" where
  "second_segment h =
     takeWhile (\<lambda>c. c \<noteq> CHR ''@'') (tl (dropWhile (\<lambda>c. c \<noteq> CHR ''@'') h))"

text \<open>A handle is malformed when it has no \<open>@\<close>, an empty username or an empty domain.\<close>

definition malformed_handle :: "string \<Rightarrow> bool" where
  "malformed_handle h =
     (CHR ''@'' \<notin> set h \<or> first_segment h = [] \<or> second_segment h = [])"

text \<open>The WebFinger request for a domain and a handle, both put into the URL as they are.\<close>

definition webfinger_request :: "string \<Rightarrow> string \<Rightarrow> request" where
  "webfinger_request d h =
     \<lparr>url = JStr (''https://'' @ d @ ''/.well-known/webfinger?resource=acct:'' @ h),
      headers = webfinger_headers, timeout = 10000\<rparr>"





text \<open>
  The links of a WebFinger document: a link is an actor link when it is an object whose
  \<open>type\<close> is exactly the string \<open>application/activity+json\<close>; the actor URL of a list of
  links is the \<open>href\<close> of the first actor link, if the list has one and the link has one.
\<close>

definition field :: "string \<Rightarrow> json \<Rightarrow> json option" where
  "field k v = (case v of JObj kvs \<Rightarrow> map_of kvs k | _ \<Rightarrow> None)"

definition is_actor_link :: "json \<Rightarrow> bool" where
  "is_actor_link l = (field ''type'' l = Some (JStr ''application/activity+json''))"

definition first_actor_href :: "json list \<Rightarrow> json" where
  "first_actor_href ls =
     (case find is_actor_link ls of
        None \<Rightarrow> JUndefined
      | Some l \<Rightarrow> (case field ''href'' l of None \<Rightarrow> JUndefined | Some v \<Rightarrow> v))"

definition not_null :: "json \<Rightarrow> bool" where
  "not_null v = (v \<noteq> JNull \<and> v \<noteq> JUndefined)"

definition is_ld_json_link :: "json \<Rightarrow> bool" where
  "is_ld_json_link l = (field ''type'' l = Some (JStr ''application/ld+json''))"

text \<open>
  Two sample documents: one with a profile page and two actor links, one whose only
  candidate link has the type \<open>application/ld+json\<close>.
\<close>

definition alice_doc :: json where
  "alice_doc =
     JObj [(''subject'', JStr ''acct:alice@example.org''),
           (''links'', JArr
              [JObj [(''rel'', JStr ''http://webfinger.net/rel/profile-page''),
                     (''type'', JStr ''text/html''),
                     (''href'', JStr ''https://example.org/@alice'')],
               JObj [(''rel'', JStr ''self''),
                     (''type'', JStr ''application/activity+json''),
                     (''href'', JStr ''https://example.org/users/alice'')],
               JObj [(''rel'', JStr ''self''),
                     (''type'', JStr ''application/activity+json''),
                     (''href'', JStr ''https://example.org/other'')]])]"

definition ld_json_doc :: json where
  "ld_json_doc =
     JObj [(''subject'', JStr ''acct:alice@example.org''),
           (''links'', JArr
              [JObj [(''rel'', JStr ''http://webfinger.net/rel/profile-page''),
                     (''type'', JStr ''text/html''),
                     (''href'', JStr ''https://example.org/@alice'')],
               JObj [(''rel'', JStr ''self''),
                     (''type'', JStr ''application/ld+json''),
                     (''href'', JStr ''https://example.org/users/alice'')]])]"

text \<open>
  A request of the actor pipeline (actor, outbox, first page) for a URL; the value of a
  property, \<open>undefined\<close> when there is none; the activities a page offers in the spec's
  words: \<open>orderedItems\<close>, or \<open>items\<close> when \<open>orderedItems\<close> is absent.
\<close>

definition actor_request :: "json \<Rightarrow> request" where
  "actor_request u = \<lparr>url = u, headers = actor_headers, timeout = 10000\<rparr>"

definition read_prop :: "json \<Rightarrow> string \<Rightarrow> json" where
  "read_prop v k = (case field k v of None \<Rightarrow> JUndefined | Some x \<Rightarrow> x)"

definition preferred_items :: "json \<Rightarrow> json list option" where
  "preferred_items page =
     (case field ''orderedItems'' page of
        Some (JArr xs) \<Rightarrow> Some xs
      | Some _ \<Rightarrow> None
      | None \<Rightarrow> (case field ''items'' page of Some (JArr ys) \<Rightarrow> Some ys | _ \<Rightarrow> None))"

text \<open>
  An activity that can be shown: not \<open>null\<close>, its \<open>type\<close> and \<open>published\<close> have string
  forms, and when it embeds an object with a type, that type has a string form and the
  content of the object, if any, is a string.
\<close>

definition showable :: "json \<Rightarrow> bool" where
  "showable a =
     (not_null a \<and> printable (read_prop a ''type'') \<and> printable (read_prop a ''published'') \<and>
      (truthy (read_prop a ''object'') \<and> truthy (read_prop (read_prop a ''object'') ''type'') \<longrightarrow>
         printable (read_prop (read_prop a ''object'') ''type'') \<and>
         (truthy (read_prop (read_prop a ''object'') ''content'') \<longrightarrow>
            (case read_prop (read_prop a ''object'') ''content'' of JStr s \<Rightarrow> True | _ \<Rightarrow> False))))"

text \<open>The activities shown on the console: the number and the type of each, in order.\<close>

fun activity_lines :: "(chan \<times> line) list \<Rightarrow> (nat \<times> json) list" where
  "activity_lines [] = []"
| "activity_lines ((c, ActivityType i t) # rest) = (i, t) # activity_lines rest"
| "activity_lines (l # rest) = activity_lines rest"

text \<open>A network that answers by the URL requested, from a table.\<close>

definition net_table :: "(json \<times> json) list \<Rightarrow> net" where
  "net_table tbl history r =
     (case map_of tbl (url r) of None \<Rightarrow> Inl (NoResponse ''ENOTFOUND'') | Some d \<Rightarrow> Inr d)"

text \<open>
  A sample outbox with a first page of five activities; the page also has an \<open>items\<close>
  list, which is not the one chosen.
\<close>

definition sample_outbox :: json where
  "sample_outbox =
     JObj [(''type'', JStr ''OrderedCollection''), (''totalItems'', JNum 5),
           (''first'', JStr ''https://example.org/users/alice/outbox?page=true'')]"

definition sample_activities :: "json list" where
  "sample_activities =
     [JObj [(''type'', JStr ''Create''), (''published'', JStr ''2024-05-01T10:00:00Z''),
            (''object'', JObj [(''type'', JStr ''Note''), (''content'', JStr ''<p>one</p>'')])],
      JObj [(''type'', JStr ''Announce''), (''published'', JStr ''2024-04-30T10:00:00Z''),
            (''object'', JStr ''https://example.org/notes/7'')],
      JObj [(''type'', JStr ''Like''), (''published'', JStr ''2024-04-29T10:00:00Z'')],
      JObj [(''type'', JStr ''Follow''), (''published'', JStr ''2024-04-28T10:00:00Z'')],
      JObj [(''type'', JStr ''Delete''), (''published'', JStr ''2024-04-27T10:00:00Z'')]]"

definition sample_page :: json where
  "sample_page =
     JObj [(''type'', JStr ''OrderedCollectionPage''),
           (''orderedItems'', JArr sample_activities),
           (''items'', JArr [JObj [(''type'', JStr ''Undo'')]])]"

definition sample_net :: net where
  "sample_net =
     net_table
       [(JStr ''https://example.org/users/alice/outbox'', sample_outbox),
        (JStr ''https://example.org/users/alice/outbox?page=true'', sample_page)]"

text \<open>
  The fixed parameters of a request: a timeout of 10 seconds (\<open>axios\<close> counts in
  milliseconds), the client identification string, and no header besides \<open>Accept\<close> and
  \<open>User-Agent\<close>: none that authenticates, none that signs.
\<close>

definition fixed_request :: "request \<Rightarrow> bool" where
  "fixed_request r =
     (timeout r = 10000 \<and>
      map_of (headers r) ''User-Agent'' = Some ''ActivityPub-Learning-Setup/1.0'' \<and>
      map fst (headers r) = [''Accept'', ''User-Agent''])"

text \<open>
  What an operation adds to the world: it only appends, requests that satisfy \<open>R\<close> and
  printed lines that satisfy \<open>C\<close>.
\<close>

definition extends :: "(request \<Rightarrow> bool) \<Rightarrow> (chan \<times> line \<Rightarrow> bool) \<Rightarrow> 'a io \<Rightarrow> bool" where
  "extends R C m =
     (\<forall>w. \<exists>rs ls. snd (m w) = w\<lparr>requests := requests w @ rs, console := console w @ ls\<rparr> \<and>
                    list_all R rs \<and> list_all C ls)"

definition any_line :: "chan \<times> line \<Rightarrow> bool" where
  "any_line l = True"

text \<open>The handles whose discovery, and whose complete analysis, the console shows as begun.\<close>

fun discovered :: "(chan \<times> line) list \<Rightarrow> string list" where
  "discovered [] = []"
| "discovered ((c, Discovering h) # rest) = h # discovered rest"
| "discovered (l # rest) = discovered rest"

fun analysed :: "(chan \<times> line) list \<Rightarrow> string list" where
  "analysed [] = []"
| "analysed ((c, CompleteAnalysis h) # rest) = h # analysed rest"
| "analysed (l # rest) = analysed rest"

definition stage_line :: "chan \<times> line \<Rightarrow> bool" where
  "stage_line l = (analysed [l] = [])"

text \<open>A printer that prints nothing and does not throw.\<close>

definition quiet_printer :: printer where
  "quiet_printer actor = ([], None)"

text \<open>
  A sample actor, and a network that serves the WebFinger document of \<open>alice\<close>, her
  actor, her outbox and its first page.
\<close>

definition alice_actor :: json where
  "alice_actor =
     JObj [(''id'', JStr ''https://example.org/users/alice''), (''type'', JStr ''Person''),
           (''preferredUsername'', JStr ''alice''),
           (''outbox'', JStr ''https://example.org/users/alice/outbox'')]"

definition alice_net :: net where
  "alice_net =
     net_table
       [(JStr ''https://example.org/.well-known/webfinger?resource=acct:alice@example.org'',
         alice_doc),
        (JStr ''https://example.org/users/alice'', alice_actor),
        (JStr ''https://example.org/users/alice/outbox'', sample_outbox),
        (JStr ''https://example.org/users/alice/outbox?page=true'', sample_page)]"

text \<open>A network that serves the WebFinger document of \<open>alice\<close> and nothing else.\<close>

definition webfinger_only_net :: net where
  "webfinger_only_net =
     net_table
       [(JStr ''https://example.org/.well-known/webfinger?resource=acct:alice@example.org'',
         alice_doc)]"




text \<open>
  What \<open>fetchActorOutbox\<close> prints for the activity with a given number: its type and
  date, and for an embedded object with a type, that type and the content, if any.
\<close>

definition activity_output :: "nat \<Rightarrow> json \<Rightarrow> (chan \<times> line) list" where
  "activity_output i a =
     [(Log, ActivityType i (read_prop a ''type'')),
      (Log, ActivityPublished (read_prop a ''published''))] @
     (if truthy (read_prop a ''object'') \<and> truthy (read_prop (read_prop a ''object'') ''type'')
      then (Log, ActivityObjectType (read_prop (read_prop a ''object'') ''type'')) #
           (case read_prop (read_prop a ''object'') ''content'' of
              JStr s \<Rightarrow> if s = [] then [] else [(Log, ActivityContent s)]
            | _ \<Rightarrow> [])
      else [])"

text \<open>
  The actor and the world of a complete analysis at the point where its first three
  stages (discovery, actor fetch, display of the actor) have succeeded and the outbox stage
  is about to begin; \<open>None\<close> when one of them failed or no actor URL was found.
\<close>

definition before_outbox :: "net \<Rightarrow> printer \<Rightarrow> string \<Rightarrow> world \<Rightarrow> (json \<times> world) option" where
  "before_outbox net p h w =
     (case discoverActor net h
             (w\<lparr>console := console w @ [(Log, CompleteAnalysis h), (Log, Rule 60)]\<rparr>) of
        (Inl e, w1) \<Rightarrow> None
      | (Inr d, w1) \<Rightarrow>
          if \<not> truthy (actorUrl d) then None
          else (case fetchActor net (actorUrl d) w1 of
                  (Inl e, w2) \<Rightarrow> None
                | (Inr actor, w2) \<Rightarrow>
                    (case analyzeActor p actor w2 of
                       (Inl e, w3) \<Rightarrow> None
                     | (Inr u, w3) \<Rightarrow> Some (actor, w3))))"

text \<open>
  Two networks for \<open>alice\<close>: one that has no outbox to serve, one that serves the outbox
  but not its first page; and the world of her analysis before the outbox stage.
\<close>

definition no_outbox_net :: net where
  "no_outbox_net =
     net_table
       [(JStr ''https://example.org/.well-known/webfinger?resource=acct:alice@example.org'',
         alice_doc),
        (JStr ''https://example.org/users/alice'', alice_actor)]"

definition no_page_net :: net where
  "no_page_net =
     net_table
       [(JStr ''https://example.org/.well-known/webfinger?resource=acct:alice@example.org'',
         alice_doc),
        (JStr ''https://example.org/users/alice'', alice_actor),
        (JStr ''https://example.org/users/alice/outbox'', sample_outbox)]"

definition alice_before_outbox :: world where
  "alice_before_outbox =
     \<lparr>requests =
        [\<lparr>url = JStr ''https://example.org/.well-known/webfinger?resource=acct:alice@example.org'',
          headers = webfinger_headers, timeout = 10000\<rparr>,
         \<lparr>url = JStr ''https://example.org/users/alice'',
          headers = actor_headers, timeout = 10000\<rparr>],
      console =
        [(Log, CompleteAnalysis ''alice@example.org''), (Log, Rule 60),
         (Log, Discovering ''alice@example.org''),
         (Log, MakingRequest
            ''https://example.org/.well-known/webfinger?resource=acct:alice@example.org''),
         (Log, DiscoverySuccessful), (Log, ResponseDataTitle),
         (Log, ResponseData alice_doc),
         (Log, ActorUrlFound (JStr ''https://example.org/users/alice'')),
         (Log, FetchingActor (JStr ''https://example.org/users/alice'')),
         (Log, ActorFetched)]\<rparr>"

text \<open>A world in which nothing has happened, and a network that answers every request alike.\<close>

definition world0 :: world where
  "world0 = \<lparr>requests = [], console = []\<rparr>"

definition net_const :: "axios_failure + json \<Rightarrow> net" where
  "net_const answer history r = answer"

section \<open>Handles\<close>

lemmas io_defs = io_bind_def io_try_def io_ret_def io_throw_def io_lift_def
  console_log_def console_error_def interpolate_def axios_get_def

lemma str_split_hd:
  "str_split c s \<noteq> [] \<and> hd (str_split c s) = takeWhile (\<lambda>x. x \<noteq> c) s"
  by (induction s) (auto split: list.splits)

lemma str_split_none: "c \<notin> set u \<Longrightarrow> str_split c u = [u]"
  by (induction u) auto

lemma str_split_append:
  "c \<notin> set u \<Longrightarrow> str_split c (u @ c # rest) = u # str_split c rest"
  by (induction u) auto

lemma str_split_first: "nth_opt (str_split CHR ''@'' h) 0 = Some (first_segment h)"
  using str_split_hd [of "CHR ''@''" h]
  by (cases "str_split CHR ''@'' h") (auto simp: nth_opt_def first_segment_def)

lemma str_split_second:
  "nth_opt (str_split CHR ''@'' h) (Suc 0) =
     (if CHR ''@'' \<in> set h then Some (second_segment h) else None)"
proof (cases "CHR ''@'' \<in> set h")
  case False
  then show ?thesis by (simp add: str_split_none nth_opt_def)
next
  case True
  then obtain u rest where h: "h = u @ CHR ''@'' # rest" and u: "CHR ''@'' \<notin> set u"
    by (auto dest: split_list_first)
  have tail: "dropWhile (\<lambda>c. c \<noteq> CHR ''@'') h = CHR ''@'' # rest"
    using u unfolding h by (subst dropWhile_append2) auto
  have "str_split CHR ''@'' h = u # str_split CHR ''@'' rest"
    unfolding h using u by (rule str_split_append)
  moreover obtain p ps where "str_split CHR ''@'' rest = p # ps"
    using str_split_hd [of "CHR ''@''" rest] by (cases "str_split CHR ''@'' rest") auto
  moreover from this have "p = takeWhile (\<lambda>x. x \<noteq> CHR ''@'') rest"
    using str_split_hd [of "CHR ''@''" rest] by simp
  ultimately show ?thesis
    using True by (simp add: nth_opt_def second_segment_def tail)
qed

lemma handle_check:
  "(falsy_str (nth_opt (str_split CHR ''@'' h) 0) \<or>
    falsy_str (nth_opt (str_split CHR ''@'' h) 1)) = malformed_handle h"
  by (simp add: str_split_first str_split_second falsy_str_def malformed_handle_def)

lemma handle_domain:
  "\<not> malformed_handle h \<Longrightarrow> tpl_str (nth_opt (str_split CHR ''@'' h) 1) = second_segment h"
  by (simp add: str_split_second tpl_str_def malformed_handle_def)

text \<open>The segments of a handle \<open>u@d\<close> and of a handle \<open>u@d@rest\<close>, \<open>u\<close> and \<open>d\<close> free of \<open>@\<close>.\<close>

lemma first_segment_append:
  "CHR ''@'' \<notin> set u \<Longrightarrow> first_segment (u @ CHR ''@'' # t) = u"
  unfolding first_segment_def by (subst takeWhile_append2) auto


lemma second_segment_more:
  "CHR ''@'' \<notin> set u \<Longrightarrow> CHR ''@'' \<notin> set d \<Longrightarrow>
   second_segment (u @ CHR ''@'' # d @ CHR ''@'' # rest) = d"
  unfolding second_segment_def
  by (subst dropWhile_append2) (auto simp: takeWhile_tail)

section \<open>Discovery\<close>

lemma getProp_error: "getProp v k = Inl e \<Longrightarrow> e = TypeError"
  by (cases v) auto

lemma find_link_error: "find_link ls = Inl e \<Longrightarrow> e = TypeError"
  by (induction ls) (auto split: sum.splits if_splits dest: getProp_error)

lemma extract_actorUrl_error: "extract_actorUrl d = Inl e \<Longrightarrow> e = TypeError"
  by (auto simp: extract_actorUrl_def split: sum.splits if_splits json.splits
      dest: getProp_error find_link_error)

lemma discoverActor_malformed:
  "malformed_handle h \<Longrightarrow>
   discoverActor net h w =
     (Inl InvalidHandleFormat, w\<lparr>console := console w @ [(Log, Discovering h)]\<rparr>)"
  using handle_check [of h]
  by (simp add: discoverActor_def io_defs Let_def)

lemma discoverActor_requests:
  "\<not> malformed_handle h \<Longrightarrow>
   requests (snd (discoverActor net h w)) =
     requests w @ [webfinger_request (second_segment h) h]"
  using handle_check [of h] handle_domain [of h]
  by (auto simp: discoverActor_def discoverActor_catch_def io_defs Let_def webfinger_request_def
      split: sum.splits prod.splits js_error.splits axios_failure.splits)

lemma discoverActor_error_kind:
  "\<not> malformed_handle h \<Longrightarrow> fst (discoverActor net h w) \<noteq> Inl InvalidHandleFormat"
  using handle_check [of h] handle_domain [of h]
  by (auto simp: discoverActor_def discoverActor_catch_def io_defs Let_def
      split: sum.splits prod.splits js_error.splits axios_failure.splits if_splits
      dest: extract_actorUrl_error)

text \<open>
  C1, as the spec states it: every handle that is not exactly one \<open>@\<close> between a non-empty
  username and a non-empty domain is rejected with InvalidHandleFormat before any request.
  The handle \<open>user@a@b\<close> has two \<open>@\<close>, and the code does not reject it: it passes the
  check and a request is made.
\<close>

theorem discoverActor_two_at_counterexample:
  "count_list ''user@a@b'' CHR ''@'' = 2 \<and>
   fst (discoverActor (net_const (Inr (JObj []))) ''user@a@b'' world0)
     \<noteq> Inl InvalidHandleFormat \<and>
   requests (snd (discoverActor (net_const (Inr (JObj []))) ''user@a@b'' world0)) =
     [webfinger_request ''a'' ''user@a@b'']"
proof -
  have ok: "\<not> malformed_handle ''user@a@b''"
    by (simp add: malformed_handle_def first_segment_def second_segment_def)
  have "second_segment ''user@a@b'' = ''a''"
    by (simp add: second_segment_def)
  with ok show ?thesis
    using discoverActor_error_kind [OF ok] discoverActor_requests [OF ok]
    by (simp add: world0_def)
qed

text \<open>
  C1, amended: the handles that \<open>discoverActor\<close> rejects with InvalidHandleFormat are
  exactly those with no \<open>@\<close>, with nothing before the first \<open>@\<close> (empty username), or with
  nothing between the first \<open>@\<close> and the next \<open>@\<close> or the end (empty domain); for these no
  request is made. A handle with more than one \<open>@\<close> is rejected only when it is one of these.
\<close>

theorem discoverActor_rejects_malformed:
  "(fst (discoverActor net h w) = Inl InvalidHandleFormat) = malformed_handle h \<and>
   (malformed_handle h \<longrightarrow> requests (snd (discoverActor net h w)) = requests w)"
  using discoverActor_error_kind [of h net w]
  by (auto simp: discoverActor_malformed)

theorem discoverActor_rejects_malformed_witness:
  "malformed_handle ''bob'' \<and> malformed_handle ''@mastodon.social'' \<and>
   malformed_handle ''alice@'' \<and>
   fst (discoverActor (net_const (Inr (JObj []))) ''bob'' world0) = Inl InvalidHandleFormat \<and>
   requests (snd (discoverActor (net_const (Inr (JObj []))) ''bob'' world0)) = []"
  using discoverActor_rejects_malformed [of "net_const (Inr (JObj []))" "''bob''" world0]
  by (simp add: malformed_handle_def first_segment_def second_segment_def world0_def)




text \<open>
  C10, as stated: every handle with two or more \<open>@\<close> passes the handle check. The handle
  \<open>@user@instance.com\<close> (the form in which the header of the script writes a handle) has
  two \<open>@\<close> and is rejected, with no request: nothing stands before its first \<open>@\<close>.
\<close>

theorem discoverActor_many_at_counterexample:
  "count_list ''@user@instance.com'' CHR ''@'' = 2 \<and>
   fst (discoverActor (net_const (Inr (JObj []))) ''@user@instance.com'' world0) =
     Inl InvalidHandleFormat \<and>
   requests (snd (discoverActor (net_const (Inr (JObj []))) ''@user@instance.com'' world0)) = []"
proof -
  have "malformed_handle ''@user@instance.com''"
    by (simp add: malformed_handle_def first_segment_def second_segment_def)
  from discoverActor_malformed [OF this] show ?thesis
    by (simp add: world0_def)
qed

text \<open>
  C10, amended: for every handle \<open>u@d@rest\<close> with two or more \<open>@\<close> in which \<open>u\<close>, the text
  before the first \<open>@\<close>, and \<open>d\<close>, the text between the first and the second \<open>@\<close>, are
  non-empty, \<open>discoverActor\<close> does not fail the handle check: it makes one WebFinger
  request, to the domain \<open>d\<close>, with the whole handle copied unencoded after
  \<open>resource=acct:\<close>.
\<close>

theorem discoverActor_many_at:
  assumes "u \<noteq> []" and "d \<noteq> []"
    and "CHR ''@'' \<notin> set u" and "CHR ''@'' \<notin> set d"
    and "h = u @ ''@'' @ d @ ''@'' @ rest"
  shows "fst (discoverActor net h w) \<noteq> Inl InvalidHandleFormat \<and>
         requests (snd (discoverActor net h w)) =
           requests w @
             [\<lparr>url = JStr (''https://'' @ d @ ''/.well-known/webfinger?resource=acct:'' @ h),
               headers = webfinger_headers, timeout = 10000\<rparr>]"
proof -
  have seg: "first_segment h = u" "second_segment h = d" "CHR ''@'' \<in> set h"
    using assms by (simp_all add: first_segment_append second_segment_more)
  then have ok: "\<not> malformed_handle h"
    using assms by (simp add: malformed_handle_def)
  show ?thesis
    using discoverActor_error_kind [OF ok] discoverActor_requests [OF ok] seg
    by (simp add: webfinger_request_def)
qed

theorem discoverActor_many_at_witness:
  "fst (discoverActor (net_const (Inr (JObj []))) ''user@a@b'' world0)
     \<noteq> Inl InvalidHandleFormat \<and>
   requests (snd (discoverActor (net_const (Inr (JObj []))) ''user@a@b'' world0)) =
     [\<lparr>url = JStr ''https://a/.well-known/webfinger?resource=acct:user@a@b'',
       headers = webfinger_headers, timeout = 10000\<rparr>]"
  using discoverActor_many_at
    [of "''user''" "''a''" "''user@a@b''" "''b''" "net_const (Inr (JObj []))" world0]
  by (simp add: world0_def)

section \<open>The actor URL\<close>

lemma getProp_type_actor:
  "not_null l \<Longrightarrow>
   \<exists>t. getProp l ''type'' = Inr t \<and> (t = JStr ''application/activity+json'') = is_actor_link l"
  by (cases l) (auto simp: not_null_def is_actor_link_def field_def split: option.splits)

lemma find_link_find:
  "list_all not_null ls \<Longrightarrow>
   find_link ls = Inr (case find is_actor_link ls of None \<Rightarrow> JUndefined | Some l \<Rightarrow> l)"
proof (induction ls)
  case Nil
  show ?case by simp
next
  case (Cons l ls)
  then obtain t where "getProp l ''type'' = Inr t"
    and "(t = JStr ''application/activity+json'') = is_actor_link l"
    using getProp_type_actor [of l] by auto
  with Cons show ?case by auto
qed

lemma actor_link_href:
  "is_actor_link l \<Longrightarrow>
   not_null l \<and> getProp l ''href'' = Inr (case field ''href'' l of None \<Rightarrow> JUndefined | Some v \<Rightarrow> v)"
  by (cases l) (auto simp: is_actor_link_def field_def not_null_def)

lemma extract_actorUrl_links:
  assumes "field ''links'' doc = Some (JArr ls)" and "list_all not_null ls"
  shows "extract_actorUrl doc = Inr (first_actor_href ls)"
proof -
  have links: "getProp doc ''links'' = Inr (JArr ls)"
    using assms(1) by (cases doc) (auto simp: field_def)
  show ?thesis
  proof (cases "find is_actor_link ls")
    case None
    then show ?thesis
      using links find_link_find [OF assms(2)]
      by (simp add: extract_actorUrl_def first_actor_href_def)
  next
    case (Some l)
    then have "is_actor_link l" by (auto simp: find_Some_iff)
    from actor_link_href [OF this] Some show ?thesis
      using links find_link_find [OF assms(2)]
      by (simp add: extract_actorUrl_def first_actor_href_def not_null_def)
  qed
qed

lemma discoverActor_success:
  assumes "\<not> malformed_handle h"
    and "net (requests w) (webfinger_request (second_segment h) h) = Inr doc"
    and "extract_actorUrl doc = Inr a"
    and "truthy a \<longrightarrow> printable a"
  shows "fst (discoverActor net h w) = Inr \<lparr>handle = h, webfingerData = doc, actorUrl = a\<rparr>"
  using assms handle_check [of h] handle_domain [of h]
  by (auto simp: discoverActor_def io_defs Let_def webfinger_request_def)

lemma find_skip:
  "(\<And>x. P x \<Longrightarrow> Q x) \<Longrightarrow> find P (filter Q xs) = find P xs"
  by (induction xs) auto

lemma first_actor_href_skip_ld:
  "first_actor_href (filter (\<lambda>l. \<not> is_ld_json_link l) ls) = first_actor_href ls"
  unfolding first_actor_href_def
  by (subst find_skip) (auto simp: is_actor_link_def is_ld_json_link_def)

lemma first_actor_href_none:
  "list_all (\<lambda>l. \<not> is_actor_link l) ls \<Longrightarrow> first_actor_href ls = JUndefined"
  by (induction ls) (auto simp: first_actor_href_def)

text \<open>
  C3: for every WebFinger document with zero or more links, received for a well-formed
  handle, \<open>discoverActor\<close> succeeds and returns the handle it was given, the document as
  received, and as \<open>actorUrl\<close> the \<open>href\<close> of the first link whose \<open>type\<close> is exactly
  \<open>application/activity+json\<close> (later matching links play no part), or \<open>undefined\<close>, which
  is not an error, when no link matches. The links are values other than \<open>null\<close>, and the
  \<open>href\<close> found is one that has a string form.
\<close>

theorem discoverActor_actorUrl:
  assumes "\<not> malformed_handle h"
    and "net (requests w) (webfinger_request (second_segment h) h) = Inr doc"
    and "field ''links'' doc = Some (JArr ls)"
    and "list_all not_null ls"
    and "printable (first_actor_href ls)"
  shows "fst (discoverActor net h w) =
           Inr \<lparr>handle = h, webfingerData = doc, actorUrl = first_actor_href ls\<rparr>"
  using assms by (intro discoverActor_success extract_actorUrl_links) auto

theorem discoverActor_actorUrl_witness:
  "fst (discoverActor (net_const (Inr alice_doc)) ''alice@example.org'' world0) =
     Inr \<lparr>handle = ''alice@example.org'', webfingerData = alice_doc,
          actorUrl = JStr ''https://example.org/users/alice''\<rparr>"
  using discoverActor_actorUrl
    [of "''alice@example.org''" "net_const (Inr alice_doc)" world0 alice_doc
        "[JObj [(''rel'', JStr ''http://webfinger.net/rel/profile-page''),
                (''type'', JStr ''text/html''),
                (''href'', JStr ''https://example.org/@alice'')],
          JObj [(''rel'', JStr ''self''),
                (''type'', JStr ''application/activity+json''),
                (''href'', JStr ''https://example.org/users/alice'')],
          JObj [(''rel'', JStr ''self''),
                (''type'', JStr ''application/activity+json''),
                (''href'', JStr ''https://example.org/other'')]]"]
  by (simp add: malformed_handle_def first_segment_def second_segment_def net_const_def
      field_def not_null_def first_actor_href_def is_actor_link_def alice_doc_def)

text \<open>
  C4, as the spec states it: the actor link is the first link whose type is
  \<open>application/activity+json\<close> or \<open>application/ld+json\<close>, so a document whose only such
  link has the type \<open>application/ld+json\<close> gives that link's \<open>href\<close>. On such a document
  the code finds no actor link: the \<open>actorUrl\<close> it returns is \<open>undefined\<close>.
\<close>

theorem discoverActor_ld_json_counterexample:
  "fst (discoverActor (net_const (Inr ld_json_doc)) ''alice@example.org'' world0) =
     Inr \<lparr>handle = ''alice@example.org'', webfingerData = ld_json_doc,
          actorUrl = JUndefined\<rparr> \<and>
   JUndefined \<noteq> JStr ''https://example.org/users/alice''"
proof -
  have ok: "\<not> malformed_handle ''alice@example.org''"
    by (simp add: malformed_handle_def first_segment_def second_segment_def)
  have "extract_actorUrl ld_json_doc = Inr JUndefined"
    by (simp add: extract_actorUrl_def ld_json_doc_def)
  then show ?thesis
    using discoverActor_success [OF ok, of "net_const (Inr ld_json_doc)" world0 ld_json_doc JUndefined]
    by (simp add: net_const_def)
qed

text \<open>
  C4, amended: for every WebFinger document the link selected as the actor link is the
  first link whose type is exactly \<open>application/activity+json\<close>. A link of type
  \<open>application/ld+json\<close> is never selected: leaving such links out of the document does
  not change the \<open>actorUrl\<close>, and a document in which no link has the type
  \<open>application/activity+json\<close> yields no \<open>actorUrl\<close>, whatever other links it has.
\<close>

theorem discoverActor_skips_ld_json:
  assumes "\<not> malformed_handle h"
    and "net (requests w) (webfinger_request (second_segment h) h) = Inr doc"
    and "field ''links'' doc = Some (JArr ls)"
    and "list_all not_null ls"
    and "printable (first_actor_href ls)"
  shows "fst (discoverActor net h w) =
           Inr \<lparr>handle = h, webfingerData = doc,
                actorUrl = first_actor_href (filter (\<lambda>l. \<not> is_ld_json_link l) ls)\<rparr> \<and>
         (list_all (\<lambda>l. \<not> is_actor_link l) ls \<longrightarrow>
            fst (discoverActor net h w) =
              Inr \<lparr>handle = h, webfingerData = doc, actorUrl = JUndefined\<rparr>)"
proof -
  have "fst (discoverActor net h w) =
          Inr \<lparr>handle = h, webfingerData = doc, actorUrl = first_actor_href ls\<rparr>"
    using assms by (intro discoverActor_success extract_actorUrl_links) auto
  then show ?thesis
    by (simp add: first_actor_href_skip_ld first_actor_href_none)
qed

theorem discoverActor_skips_ld_json_witness:
  "fst (discoverActor (net_const (Inr ld_json_doc)) ''alice@example.org'' world0) =
     Inr \<lparr>handle = ''alice@example.org'', webfingerData = ld_json_doc,
          actorUrl = JUndefined\<rparr>"
  using discoverActor_skips_ld_json
    [of "''alice@example.org''" "net_const (Inr ld_json_doc)" world0 ld_json_doc
        "[JObj [(''rel'', JStr ''http://webfinger.net/rel/profile-page''),
                (''type'', JStr ''text/html''),
                (''href'', JStr ''https://example.org/@alice'')],
          JObj [(''rel'', JStr ''self''),
                (''type'', JStr ''application/ld+json''),
                (''href'', JStr ''https://example.org/users/alice'')]]"]
  by (simp add: malformed_handle_def first_segment_def second_segment_def net_const_def
      field_def not_null_def first_actor_href_def is_actor_link_def is_ld_json_link_def
      ld_json_doc_def)

section \<open>The outbox\<close>

lemma getProp_read_prop: "not_null v \<Longrightarrow> getProp v k = Inr (read_prop v k)"
  by (cases v) (auto simp: not_null_def read_prop_def field_def)

lemma truthy_not_null: "truthy v \<Longrightarrow> not_null v"
  by (cases v) (auto simp: not_null_def)

lemma activity_lines_append:
  "activity_lines (xs @ ys) = activity_lines xs @ activity_lines ys"
  by (induction xs rule: activity_lines.induct) auto

lemma page_activities_preferred:
  "preferred_items page = Some acts \<Longrightarrow> page_activities page = Inr (JArr acts)"
  by (cases page)
     (auto simp: preferred_items_def page_activities_def field_def js_or_def
       split: option.splits json.splits)

lemma sliced_take:
  "0 \<le> limit \<Longrightarrow> sliced (JArr acts) limit = Inr (take (nat limit) acts)"
  by simp

lemma fetchFirstPage_failed:
  "net (requests w) (actor_request first) = Inl f \<Longrightarrow>
   fetchFirstPage net first limit w =
     (Inr (), w\<lparr>requests := requests w @ [actor_request first],
                console := console w @ [(Log, OutboxActivitiesFailed)]\<rparr>)"
  by (simp add: fetchFirstPage_def io_defs actor_request_def)

lemma fetchFirstPage_returns: "fst (fetchFirstPage net first limit w) = Inr ()"
  by (simp add: fetchFirstPage_def io_try_def console_log_def split: prod.splits sum.splits)

lemma fetchFirstPage_no_throw: "fetchFirstPage net first limit w \<noteq> (Inl e, w')"
  using fetchFirstPage_returns [of net first limit w] by auto

lemma fetchActorOutbox_no_url:
  "\<not> truthy u \<Longrightarrow>
   fetchActorOutbox net u limit w =
     (Inr JUndefined, w\<lparr>console := console w @ [(Log, NoOutboxUrl)]\<rparr>)"
  by (simp add: fetchActorOutbox_def io_defs)

lemma fetchActorOutbox_returns:
  "truthy u \<longrightarrow> printable u \<Longrightarrow> fst (fetchActorOutbox net u limit w) = Inr JUndefined"
  by (auto simp: fetchActorOutbox_def io_defs split: prod.splits sum.splits)

lemma fetchActorOutbox_outbox_failed:
  assumes "truthy u" and "printable u"
    and "net (requests w) (actor_request u) = Inl f"
  shows "fetchActorOutbox net u limit w =
           (Inr JUndefined,
            w\<lparr>requests := requests w @ [actor_request u],
              console := console w @
                [(Log, FetchingOutbox u), (Err, OutboxFailed (AxiosError f))]\<rparr>)"
  using assms by (simp add: fetchActorOutbox_def io_defs actor_request_def)

lemma fetchActorOutbox_first_page:
  assumes "truthy u" and "printable u"
    and "net (requests w) (actor_request u) = Inr outbox"
    and "not_null outbox"
    and "printable (js_or (read_prop outbox ''totalItems'') (JStr ''unknown''))"
    and "truthy (read_prop outbox ''first'')"
    and "printable (read_prop outbox ''first'')"
  shows "fetchActorOutbox net u limit w =
           (Inr JUndefined,
            snd (fetchFirstPage net (read_prop outbox ''first'')
                   (case limit of None \<Rightarrow> 5 | Some n \<Rightarrow> n)
                   (w\<lparr>requests := requests w @ [actor_request u],
                      console := console w @
                        [(Log, FetchingOutbox u),
                         (Log, OutboxFetched (js_or (read_prop outbox ''totalItems'') (JStr ''unknown''))),
                         (Log, FirstPage (read_prop outbox ''first''))]\<rparr>)))"
  using assms
  by (auto simp: fetchActorOutbox_def io_defs actor_request_def getProp_read_prop
      fetchFirstPage_no_throw split: prod.splits sum.splits)

text \<open>
  C5, as the spec states it: with an absent outbox URL \<open>fetchActorOutbox\<close> returns an empty
  sequence. What the code returns there is \<open>undefined\<close>, which is no sequence.
\<close>

theorem fetchActorOutbox_absent_counterexample:
  "fst (fetchActorOutbox (net_const (Inr (JObj []))) JUndefined (Some 5) world0) = Inr JUndefined \<and>
   JUndefined \<noteq> JArr []"
  by (simp add: fetchActorOutbox_no_url)

text \<open>
  C5, amended: for every limit (given or left out), calling \<open>fetchActorOutbox\<close> with an
  absent outbox URL (\<open>undefined\<close>, or any other falsy value) is not an error and makes no
  request: it prints one warning and returns \<open>undefined\<close>, no sequence of activities.
\<close>

theorem fetchActorOutbox_absent:
  "\<not> truthy u \<Longrightarrow>
   fst (fetchActorOutbox net u limit w) = Inr JUndefined \<and>
   requests (snd (fetchActorOutbox net u limit w)) = requests w \<and>
   console (snd (fetchActorOutbox net u limit w)) = console w @ [(Log, NoOutboxUrl)]"
  by (simp add: fetchActorOutbox_no_url)

theorem fetchActorOutbox_absent_witness:
  "\<not> truthy JUndefined \<and>
   fst (fetchActorOutbox sample_net JUndefined (Some 5) world0) = Inr JUndefined \<and>
   requests (snd (fetchActorOutbox sample_net JUndefined (Some 5) world0)) = [] \<and>
   console (snd (fetchActorOutbox sample_net JUndefined (Some 5) world0)) = [(Log, NoOutboxUrl)]"
  using fetchActorOutbox_absent [of JUndefined sample_net "Some 5" world0]
  by (simp add: world0_def)

lemma analyzeActorComplete_returns: "fst (analyzeActorComplete net p h w) = Inr JUndefined"
  by (auto simp: analyzeActorComplete_def io_bind_def io_try_def io_ret_def console_log_def
      console_error_def split: prod.splits sum.splits)

lemma showActivity_output:
  assumes "showable a"
  shows "showActivity i a w = (Inr (), w\<lparr>console := console w @ activity_output (Suc i) a\<rparr>)"
proof -
  have a: "getProp a k = Inr (read_prop a k)" for k
    using assms by (simp add: showable_def getProp_read_prop)
  have obj: "truthy (read_prop a ''object'') \<Longrightarrow>
      getProp (read_prop a ''object'') k = Inr (read_prop (read_prop a ''object'') k)" for k
    by (simp add: getProp_read_prop truthy_not_null)
  show ?thesis
    using assms
    by (auto simp: showActivity_def io_defs a obj showable_def activity_output_def
        split: json.splits)
qed

lemma forEach_output:
  "list_all showable xs \<Longrightarrow>
   forEach_from i xs w =
     (Inr (), w\<lparr>console := console w @
                   concat (map2 activity_output [Suc i..<Suc i + length xs] xs)\<rparr>)"
proof (induction xs arbitrary: i w)
  case Nil
  show ?case by (simp add: io_ret_def)
next
  case (Cons a xs)
  have "[Suc i..<Suc i + length (a # xs)] = Suc i # [Suc (Suc i)..<Suc (Suc i) + length xs]"
    by (subst upt_conv_Cons) simp_all
  then show ?case
    using Cons.prems Cons.IH [of "Suc i" "w\<lparr>console := console w @ activity_output (Suc i) a\<rparr>"]
    by (simp add: io_bind_def showActivity_output)
qed

lemma activity_lines_output:
  "activity_lines (concat (map2 activity_output ns xs)) =
     zip ns (map (\<lambda>a. read_prop a ''type'') xs)"
proof (induction ns arbitrary: xs)
  case Nil
  show ?case by simp
next
  case (Cons n ns)
  show ?case
  proof (cases xs)
    case Nil
    then show ?thesis by simp
  next
    case (Cons a as)
    have "activity_lines (activity_output n a) = [(n, read_prop a ''type'')]"
      by (simp add: activity_output_def split: json.splits)
    then show ?thesis
      using Cons Cons.IH [of as] by (simp add: activity_lines_append)
  qed
qed

lemma fetchFirstPage_output:
  assumes "net (requests w) (actor_request first) = Inr page"
    and "preferred_items page = Some acts"
    and "0 \<le> limit"
    and "list_all showable (take (nat limit) acts)"
  shows "fetchFirstPage net first limit w =
           (Inr (),
            w\<lparr>requests := requests w @ [actor_request first],
              console := console w @
                (Log, RecentActivities limit (JArr acts)) #
                concat (map2 activity_output [1..<Suc (length (take (nat limit) acts))]
                          (take (nat limit) acts))\<rparr>)"
  using assms(1,3) page_activities_preferred [OF assms(2)]
    forEach_output [OF assms(4), of 0]
  by (simp add: fetchFirstPage_def io_defs actor_request_def)

text \<open>
  C6, as the spec states it: when the first page holds more than \<open>limit\<close> items, the
  sequence that results from \<open>fetchActorOutbox\<close> has length \<open>limit\<close> and is the first
  \<open>limit\<close> items of the page. For the sample outbox, whose first page holds five
  activities, and the limit 3, what results from the call is \<open>undefined\<close>, not the
  sequence of the first three.
\<close>

theorem fetchActorOutbox_result_counterexample:
  "length sample_activities = 5 \<and>
   fst (fetchActorOutbox sample_net (JStr ''https://example.org/users/alice/outbox'')
          (Some 3) world0) = Inr JUndefined \<and>
   JUndefined \<noteq> JArr (take 3 sample_activities)"
  by (simp add: fetchActorOutbox_returns sample_activities_def)

text \<open>
  C6, amended: from a fetched first page \<open>fetchActorOutbox\<close> takes \<open>orderedItems\<close>, or
  \<open>items\<close> when \<open>orderedItems\<close> is absent; when the page holds more than \<open>limit\<close> items
  (\<open>limit\<close> not negative), it prints exactly the first \<open>limit\<close> items of the page, in the
  order of the page and numbered from one, and nothing of the later items; it makes the
  two requests and returns \<open>undefined\<close>: the items are shown, no sequence is returned.
  (The items shown are activities that can be shown.)
\<close>

theorem fetchActorOutbox_truncates:
  assumes "truthy u" and "printable u"
    and "net (requests w) (actor_request u) = Inr outbox"
    and "not_null outbox"
    and "printable (js_or (read_prop outbox ''totalItems'') (JStr ''unknown''))"
    and "truthy (read_prop outbox ''first'')"
    and "printable (read_prop outbox ''first'')"
    and "net (requests w @ [actor_request u]) (actor_request (read_prop outbox ''first'')) = Inr page"
    and "preferred_items page = Some acts"
    and "0 \<le> limit" and "limit < int (length acts)"
    and "list_all showable (take (nat limit) acts)"
  shows "fetchActorOutbox net u (Some limit) w =
           (Inr JUndefined,
            w\<lparr>requests := requests w @
                             [actor_request u, actor_request (read_prop outbox ''first'')],
              console := console w @
                [(Log, FetchingOutbox u),
                 (Log, OutboxFetched (js_or (read_prop outbox ''totalItems'') (JStr ''unknown''))),
                 (Log, FirstPage (read_prop outbox ''first'')),
                 (Log, RecentActivities limit (JArr acts))] @
                concat (map2 activity_output [1..<Suc (nat limit)] (take (nat limit) acts))\<rparr>) \<and>
         length (take (nat limit) acts) = nat limit \<and>
         activity_lines (console (snd (fetchActorOutbox net u (Some limit) w))) =
           activity_lines (console w) @
             zip [1..<Suc (nat limit)] (map (\<lambda>a. read_prop a ''type'') (take (nat limit) acts))"
proof -
  define w1 where
    "w1 = w\<lparr>requests := requests w @ [actor_request u],
            console := console w @
              [(Log, FetchingOutbox u),
               (Log, OutboxFetched (js_or (read_prop outbox ''totalItems'') (JStr ''unknown''))),
               (Log, FirstPage (read_prop outbox ''first''))]\<rparr>"
  have len: "length (take (nat limit) acts) = nat limit"
    using assms(10,11) by simp
  have run: "fetchActorOutbox net u (Some limit) w =
               (Inr JUndefined, snd (fetchFirstPage net (read_prop outbox ''first'') limit w1))"
    using fetchActorOutbox_first_page [where net = net and w = w and limit = "Some limit", OF assms(1-7)]
    by (simp add: w1_def)
  have "net (requests w1) (actor_request (read_prop outbox ''first'')) = Inr page"
    using assms(8) by (simp add: w1_def)
  from fetchFirstPage_output [where net = net and w = w1, OF this assms(9,10,12)]
  have page: "fetchFirstPage net (read_prop outbox ''first'') limit w1 =
           (Inr (),
            w1\<lparr>requests := requests w1 @ [actor_request (read_prop outbox ''first'')],
               console := console w1 @
                 (Log, RecentActivities limit (JArr acts)) #
                 concat (map2 activity_output [1..<Suc (nat limit)] (take (nat limit) acts))\<rparr>)"
    using len by simp
  have whole: "fetchActorOutbox net u (Some limit) w =
           (Inr JUndefined,
            w\<lparr>requests := requests w @
                             [actor_request u, actor_request (read_prop outbox ''first'')],
              console := console w @
                [(Log, FetchingOutbox u),
                 (Log, OutboxFetched (js_or (read_prop outbox ''totalItems'') (JStr ''unknown''))),
                 (Log, FirstPage (read_prop outbox ''first'')),
                 (Log, RecentActivities limit (JArr acts))] @
                concat (map2 activity_output [1..<Suc (nat limit)] (take (nat limit) acts))\<rparr>)"
    unfolding run page by (simp add: w1_def)
  show ?thesis
    unfolding whole using len
    by (simp add: activity_lines_append activity_lines_output)
qed

theorem fetchActorOutbox_truncates_witness:
  "length sample_activities = 5 \<and>
   fst (fetchActorOutbox sample_net (JStr ''https://example.org/users/alice/outbox'')
          (Some 3) world0) = Inr JUndefined \<and>
   requests (snd (fetchActorOutbox sample_net (JStr ''https://example.org/users/alice/outbox'')
                    (Some 3) world0)) =
     [actor_request (JStr ''https://example.org/users/alice/outbox''),
      actor_request (JStr ''https://example.org/users/alice/outbox?page=true'')] \<and>
   console (snd (fetchActorOutbox sample_net (JStr ''https://example.org/users/alice/outbox'')
                   (Some 3) world0)) =
     [(Log, FetchingOutbox (JStr ''https://example.org/users/alice/outbox'')),
      (Log, OutboxFetched (JNum 5)),
      (Log, FirstPage (JStr ''https://example.org/users/alice/outbox?page=true'')),
      (Log, RecentActivities 3 (JArr sample_activities)),
      (Log, ActivityType 1 (JStr ''Create'')),
      (Log, ActivityPublished (JStr ''2024-05-01T10:00:00Z'')),
      (Log, ActivityObjectType (JStr ''Note'')),
      (Log, ActivityContent ''<p>one</p>''),
      (Log, ActivityType 2 (JStr ''Announce'')),
      (Log, ActivityPublished (JStr ''2024-04-30T10:00:00Z'')),
      (Log, ActivityType 3 (JStr ''Like'')),
      (Log, ActivityPublished (JStr ''2024-04-29T10:00:00Z''))] \<and>
   activity_lines
     (console (snd (fetchActorOutbox sample_net (JStr ''https://example.org/users/alice/outbox'')
                      (Some 3) world0))) =
     [(1, JStr ''Create''), (2, JStr ''Announce''), (3, JStr ''Like'')]"
proof -
  have three: "take (nat 3) sample_activities =
      [JObj [(''type'', JStr ''Create''), (''published'', JStr ''2024-05-01T10:00:00Z''),
             (''object'', JObj [(''type'', JStr ''Note''), (''content'', JStr ''<p>one</p>'')])],
       JObj [(''type'', JStr ''Announce''), (''published'', JStr ''2024-04-30T10:00:00Z''),
             (''object'', JStr ''https://example.org/notes/7'')],
       JObj [(''type'', JStr ''Like''), (''published'', JStr ''2024-04-29T10:00:00Z'')]]"
    by (simp add: sample_activities_def)
  have upt: "[1..<Suc (nat 3)] = [1, 2, 3]"
    by (simp add: upt_conv_Cons)
  have shown: "list_all showable (take (nat 3) sample_activities)"
    unfolding three
    by (simp add: showable_def not_null_def read_prop_def field_def)
  have len: "length sample_activities = 5"
    by (simp add: sample_activities_def)
  have out: "concat (map2 activity_output [1, 2, 3] (take (nat 3) sample_activities)) =
      [(Log, ActivityType 1 (JStr ''Create'')),
       (Log, ActivityPublished (JStr ''2024-05-01T10:00:00Z'')),
       (Log, ActivityObjectType (JStr ''Note'')),
       (Log, ActivityContent ''<p>one</p>''),
       (Log, ActivityType 2 (JStr ''Announce'')),
       (Log, ActivityPublished (JStr ''2024-04-30T10:00:00Z'')),
       (Log, ActivityType 3 (JStr ''Like'')),
       (Log, ActivityPublished (JStr ''2024-04-29T10:00:00Z''))]"
    unfolding three
    by (simp add: activity_output_def read_prop_def field_def)
  show ?thesis
    using fetchActorOutbox_truncates
      [of "JStr ''https://example.org/users/alice/outbox''" sample_net world0 sample_outbox
          sample_page sample_activities 3, OF _ _ _ _ _ _ _ _ _ _ _ shown]
    unfolding upt out
    by (simp add: len sample_net_def net_table_def actor_request_def sample_outbox_def
        sample_page_def not_null_def read_prop_def field_def js_or_def preferred_items_def
        world0_def)
qed

lemma analyzeActorComplete_outbox_stage:
  assumes "before_outbox net p h w = Some (actor, wb)"
    and "not_null actor"
    and "fetchActorOutbox net (read_prop actor ''outbox'') (Some 3) wb = (Inr x, wc)"
  shows "analyzeActorComplete net p h w = (Inr JUndefined, wc)"
  using assms
  by (auto simp: before_outbox_def analyzeActorComplete_def io_bind_def io_try_def io_ret_def
      io_lift_def console_log_def getProp_read_prop
      split: prod.splits sum.splits if_splits)

text \<open>
  C7: a failure of the outbox fetch, or of the fetch of its first page (any failure of
  \<open>axios.get\<close>: no response, or a status outside 2xx), does not leave \<open>fetchActorOutbox\<close>:
  the function prints a line that reports it, shows no activity and returns normally, as
  it does on every call with an outbox URL that has a string form. Nor does it reach the
  resolution around it: when the analysis of a handle has come to its outbox stage and
  the outbox fetch or the first-page fetch fails, \<open>analyzeActorComplete\<close> ends with the
  line of \<open>fetchActorOutbox\<close> that reports the failure, prints no failure of the analysis
  and returns normally.
\<close>

theorem fetchActorOutbox_failures_contained:
  "(truthy u \<and> printable u \<and> net (requests w) (actor_request u) = Inl f \<longrightarrow>
      fetchActorOutbox net u limit w =
        (Inr JUndefined,
         w\<lparr>requests := requests w @ [actor_request u],
           console := console w @
             [(Log, FetchingOutbox u), (Err, OutboxFailed (AxiosError f))]\<rparr>)) \<and>
   (truthy u \<and> printable u \<and> net (requests w) (actor_request u) = Inr outbox \<and>
    not_null outbox \<and>
    printable (js_or (read_prop outbox ''totalItems'') (JStr ''unknown'')) \<and>
    truthy (read_prop outbox ''first'') \<and> printable (read_prop outbox ''first'') \<and>
    net (requests w @ [actor_request u]) (actor_request (read_prop outbox ''first'')) = Inl f \<longrightarrow>
      fetchActorOutbox net u limit w =
        (Inr JUndefined,
         w\<lparr>requests := requests w @
                          [actor_request u, actor_request (read_prop outbox ''first'')],
           console := console w @
             [(Log, FetchingOutbox u),
              (Log, OutboxFetched (js_or (read_prop outbox ''totalItems'') (JStr ''unknown''))),
              (Log, FirstPage (read_prop outbox ''first'')),
              (Log, OutboxActivitiesFailed)]\<rparr>)) \<and>
   ((truthy u \<longrightarrow> printable u) \<longrightarrow> fst (fetchActorOutbox net u limit w) = Inr JUndefined) \<and>
   fst (analyzeActorComplete net p h w) = Inr JUndefined \<and>
   (before_outbox net p h w = Some (actor, wb) \<and> not_null actor \<and>
    truthy (read_prop actor ''outbox'') \<and> printable (read_prop actor ''outbox'') \<and>
    net (requests wb) (actor_request (read_prop actor ''outbox'')) = Inl f \<longrightarrow>
      analyzeActorComplete net p h w =
        (Inr JUndefined,
         wb\<lparr>requests := requests wb @ [actor_request (read_prop actor ''outbox'')],
            console := console wb @
              [(Log, FetchingOutbox (read_prop actor ''outbox'')),
               (Err, OutboxFailed (AxiosError f))]\<rparr>)) \<and>
   (before_outbox net p h w = Some (actor, wb) \<and> not_null actor \<and>
    truthy (read_prop actor ''outbox'') \<and> printable (read_prop actor ''outbox'') \<and>
    net (requests wb) (actor_request (read_prop actor ''outbox'')) = Inr outbox \<and>
    not_null outbox \<and>
    printable (js_or (read_prop outbox ''totalItems'') (JStr ''unknown'')) \<and>
    truthy (read_prop outbox ''first'') \<and> printable (read_prop outbox ''first'') \<and>
    net (requests wb @ [actor_request (read_prop actor ''outbox'')])
      (actor_request (read_prop outbox ''first'')) = Inl f \<longrightarrow>
      analyzeActorComplete net p h w =
        (Inr JUndefined,
         wb\<lparr>requests := requests wb @
                           [actor_request (read_prop actor ''outbox''),
                            actor_request (read_prop outbox ''first'')],
            console := console wb @
              [(Log, FetchingOutbox (read_prop actor ''outbox'')),
               (Log, OutboxFetched (js_or (read_prop outbox ''totalItems'') (JStr ''unknown''))),
               (Log, FirstPage (read_prop outbox ''first'')),
               (Log, OutboxActivitiesFailed)]\<rparr>))"
proof -
  have outbox_failed:
    "fetchActorOutbox net v lim v0 =
        (Inr JUndefined,
         v0\<lparr>requests := requests v0 @ [actor_request v],
            console := console v0 @
              [(Log, FetchingOutbox v), (Err, OutboxFailed (AxiosError f))]\<rparr>)"
    if "truthy v" and "printable v" and "net (requests v0) (actor_request v) = Inl f"
    for v lim v0
    using that by (rule fetchActorOutbox_outbox_failed)
  have page_failed:
    "fetchActorOutbox net v lim v0 =
        (Inr JUndefined,
         v0\<lparr>requests := requests v0 @ [actor_request v, actor_request (read_prop outbox ''first'')],
            console := console v0 @
              [(Log, FetchingOutbox v),
               (Log, OutboxFetched (js_or (read_prop outbox ''totalItems'') (JStr ''unknown''))),
               (Log, FirstPage (read_prop outbox ''first'')),
               (Log, OutboxActivitiesFailed)]\<rparr>)"
    if "truthy v" and "printable v" and "net (requests v0) (actor_request v) = Inr outbox"
      and "not_null outbox"
      and "printable (js_or (read_prop outbox ''totalItems'') (JStr ''unknown''))"
      and "truthy (read_prop outbox ''first'')" and "printable (read_prop outbox ''first'')"
      and "net (requests v0 @ [actor_request v]) (actor_request (read_prop outbox ''first'')) = Inl f"
    for v lim v0
  proof -
    have "fetchActorOutbox net v lim v0 =
           (Inr JUndefined,
            snd (fetchFirstPage net (read_prop outbox ''first'')
                   (case lim of None \<Rightarrow> 5 | Some n \<Rightarrow> n)
                   (v0\<lparr>requests := requests v0 @ [actor_request v],
                       console := console v0 @
                         [(Log, FetchingOutbox v),
                          (Log, OutboxFetched (js_or (read_prop outbox ''totalItems'') (JStr ''unknown''))),
                          (Log, FirstPage (read_prop outbox ''first''))]\<rparr>)))"
      using that(1-7) by (rule fetchActorOutbox_first_page)
    then show ?thesis
      using that(8) by (simp add: fetchFirstPage_failed)
  qed
  show ?thesis
  proof (intro conjI impI)
    assume "truthy u \<and> printable u \<and> net (requests w) (actor_request u) = Inl f"
    then show "fetchActorOutbox net u limit w =
        (Inr JUndefined,
         w\<lparr>requests := requests w @ [actor_request u],
           console := console w @
             [(Log, FetchingOutbox u), (Err, OutboxFailed (AxiosError f))]\<rparr>)"
      by (intro outbox_failed) auto
  next
    assume "truthy u \<and> printable u \<and> net (requests w) (actor_request u) = Inr outbox \<and>
      not_null outbox \<and>
      printable (js_or (read_prop outbox ''totalItems'') (JStr ''unknown'')) \<and>
      truthy (read_prop outbox ''first'') \<and> printable (read_prop outbox ''first'') \<and>
      net (requests w @ [actor_request u]) (actor_request (read_prop outbox ''first'')) = Inl f"
    then show "fetchActorOutbox net u limit w =
        (Inr JUndefined,
         w\<lparr>requests := requests w @
                          [actor_request u, actor_request (read_prop outbox ''first'')],
           console := console w @
             [(Log, FetchingOutbox u),
              (Log, OutboxFetched (js_or (read_prop outbox ''totalItems'') (JStr ''unknown''))),
              (Log, FirstPage (read_prop outbox ''first'')),
              (Log, OutboxActivitiesFailed)]\<rparr>)"
      by (intro page_failed) auto
  next
    assume "truthy u \<longrightarrow> printable u"
    then show "fst (fetchActorOutbox net u limit w) = Inr JUndefined"
      by (rule fetchActorOutbox_returns)
  next
    show "fst (analyzeActorComplete net p h w) = Inr JUndefined"
      by (rule analyzeActorComplete_returns)
  next
    assume a: "before_outbox net p h w = Some (actor, wb) \<and> not_null actor \<and>
      truthy (read_prop actor ''outbox'') \<and> printable (read_prop actor ''outbox'') \<and>
      net (requests wb) (actor_request (read_prop actor ''outbox'')) = Inl f"
    then have "fetchActorOutbox net (read_prop actor ''outbox'') (Some 3) wb =
        (Inr JUndefined,
         wb\<lparr>requests := requests wb @ [actor_request (read_prop actor ''outbox'')],
            console := console wb @
              [(Log, FetchingOutbox (read_prop actor ''outbox'')),
               (Err, OutboxFailed (AxiosError f))]\<rparr>)"
      by (intro outbox_failed) auto
    with a show "analyzeActorComplete net p h w =
        (Inr JUndefined,
         wb\<lparr>requests := requests wb @ [actor_request (read_prop actor ''outbox'')],
            console := console wb @
              [(Log, FetchingOutbox (read_prop actor ''outbox'')),
               (Err, OutboxFailed (AxiosError f))]\<rparr>)"
      by (intro analyzeActorComplete_outbox_stage [where actor = actor and wb = wb]) auto
  next
    assume a: "before_outbox net p h w = Some (actor, wb) \<and> not_null actor \<and>
      truthy (read_prop actor ''outbox'') \<and> printable (read_prop actor ''outbox'') \<and>
      net (requests wb) (actor_request (read_prop actor ''outbox'')) = Inr outbox \<and>
      not_null outbox \<and>
      printable (js_or (read_prop outbox ''totalItems'') (JStr ''unknown'')) \<and>
      truthy (read_prop outbox ''first'') \<and> printable (read_prop outbox ''first'') \<and>
      net (requests wb @ [actor_request (read_prop actor ''outbox'')])
        (actor_request (read_prop outbox ''first'')) = Inl f"
    then have "fetchActorOutbox net (read_prop actor ''outbox'') (Some 3) wb =
        (Inr JUndefined,
         wb\<lparr>requests := requests wb @
                           [actor_request (read_prop actor ''outbox''),
                            actor_request (read_prop outbox ''first'')],
            console := console wb @
              [(Log, FetchingOutbox (read_prop actor ''outbox'')),
               (Log, OutboxFetched (js_or (read_prop outbox ''totalItems'') (JStr ''unknown''))),
               (Log, FirstPage (read_prop outbox ''first'')),
               (Log, OutboxActivitiesFailed)]\<rparr>)"
      by (intro page_failed) auto
    with a show "analyzeActorComplete net p h w =
        (Inr JUndefined,
         wb\<lparr>requests := requests wb @
                           [actor_request (read_prop actor ''outbox''),
                            actor_request (read_prop outbox ''first'')],
            console := console wb @
              [(Log, FetchingOutbox (read_prop actor ''outbox'')),
               (Log, OutboxFetched (js_or (read_prop outbox ''totalItems'') (JStr ''unknown''))),
               (Log, FirstPage (read_prop outbox ''first'')),
               (Log, OutboxActivitiesFailed)]\<rparr>)"
      by (intro analyzeActorComplete_outbox_stage [where actor = actor and wb = wb]) auto
  qed
qed

theorem fetchActorOutbox_failures_contained_witness:
  "fetchActorOutbox (net_const (Inl (NoResponse ''timeout'')))
     (JStr ''https://example.org/users/alice/outbox'') (Some 3) world0 =
     (Inr JUndefined,
      \<lparr>requests = [actor_request (JStr ''https://example.org/users/alice/outbox'')],
       console = [(Log, FetchingOutbox (JStr ''https://example.org/users/alice/outbox'')),
                  (Err, OutboxFailed (AxiosError (NoResponse ''timeout'')))]\<rparr>) \<and>
   fetchActorOutbox
     (net_table [(JStr ''https://example.org/users/alice/outbox'', sample_outbox)])
     (JStr ''https://example.org/users/alice/outbox'') (Some 3) world0 =
     (Inr JUndefined,
      \<lparr>requests = [actor_request (JStr ''https://example.org/users/alice/outbox''),
                   actor_request (JStr ''https://example.org/users/alice/outbox?page=true'')],
       console = [(Log, FetchingOutbox (JStr ''https://example.org/users/alice/outbox'')),
                  (Log, OutboxFetched (JNum 5)),
                  (Log, FirstPage (JStr ''https://example.org/users/alice/outbox?page=true'')),
                  (Log, OutboxActivitiesFailed)]\<rparr>) \<and>
   before_outbox no_outbox_net quiet_printer ''alice@example.org'' world0 =
     Some (alice_actor, alice_before_outbox) \<and>
   analyzeActorComplete no_outbox_net quiet_printer ''alice@example.org'' world0 =
     (Inr JUndefined,
      alice_before_outbox
        \<lparr>requests := requests alice_before_outbox @
                         [actor_request (JStr ''https://example.org/users/alice/outbox'')],
         console := console alice_before_outbox @
           [(Log, FetchingOutbox (JStr ''https://example.org/users/alice/outbox'')),
            (Err, OutboxFailed (AxiosError (NoResponse ''ENOTFOUND'')))]\<rparr>) \<and>
   before_outbox no_page_net quiet_printer ''alice@example.org'' world0 =
     Some (alice_actor, alice_before_outbox) \<and>
   analyzeActorComplete no_page_net quiet_printer ''alice@example.org'' world0 =
     (Inr JUndefined,
      alice_before_outbox
        \<lparr>requests := requests alice_before_outbox @
                         [actor_request (JStr ''https://example.org/users/alice/outbox''),
                          actor_request (JStr ''https://example.org/users/alice/outbox?page=true'')],
         console := console alice_before_outbox @
           [(Log, FetchingOutbox (JStr ''https://example.org/users/alice/outbox'')),
            (Log, OutboxFetched (JNum 5)),
            (Log, FirstPage (JStr ''https://example.org/users/alice/outbox?page=true'')),
            (Log, OutboxActivitiesFailed)]\<rparr>)"
proof -
  have direct:
    "fetchActorOutbox (net_const (Inl (NoResponse ''timeout'')))
       (JStr ''https://example.org/users/alice/outbox'') (Some 3) world0 =
       (Inr JUndefined,
        \<lparr>requests = [actor_request (JStr ''https://example.org/users/alice/outbox'')],
         console = [(Log, FetchingOutbox (JStr ''https://example.org/users/alice/outbox'')),
                    (Err, OutboxFailed (AxiosError (NoResponse ''timeout'')))]\<rparr>)"
    "fetchActorOutbox
       (net_table [(JStr ''https://example.org/users/alice/outbox'', sample_outbox)])
       (JStr ''https://example.org/users/alice/outbox'') (Some 3) world0 =
       (Inr JUndefined,
        \<lparr>requests = [actor_request (JStr ''https://example.org/users/alice/outbox''),
                     actor_request (JStr ''https://example.org/users/alice/outbox?page=true'')],
         console = [(Log, FetchingOutbox (JStr ''https://example.org/users/alice/outbox'')),
                    (Log, OutboxFetched (JNum 5)),
                    (Log, FirstPage (JStr ''https://example.org/users/alice/outbox?page=true'')),
                    (Log, OutboxActivitiesFailed)]\<rparr>)"
    using fetchActorOutbox_failures_contained
      [where u = "JStr ''https://example.org/users/alice/outbox''"
         and net = "net_const (Inl (NoResponse ''timeout''))" and w = world0
         and f = "NoResponse ''timeout''" and limit = "Some 3"]
      fetchActorOutbox_failures_contained
      [where u = "JStr ''https://example.org/users/alice/outbox''"
         and net = "net_table [(JStr ''https://example.org/users/alice/outbox'', sample_outbox)]"
         and w = world0 and f = "NoResponse ''ENOTFOUND''" and limit = "Some 3"
         and outbox = sample_outbox]
    by (simp_all add: net_const_def net_table_def world0_def actor_request_def sample_outbox_def
        not_null_def read_prop_def field_def js_or_def)
  have before:
    "before_outbox no_outbox_net quiet_printer ''alice@example.org'' world0 =
       Some (alice_actor, alice_before_outbox)"
    "before_outbox no_page_net quiet_printer ''alice@example.org'' world0 =
       Some (alice_actor, alice_before_outbox)"
    by (simp_all add: before_outbox_def discoverActor_def fetchActor_def analyzeActor_def
        io_defs Let_def world0_def no_outbox_net_def no_page_net_def net_table_def
        alice_doc_def alice_actor_def quiet_printer_def nth_opt_def falsy_str_def tpl_str_def
        extract_actorUrl_def alice_before_outbox_def)
  have actor: "not_null alice_actor"
    "read_prop alice_actor ''outbox'' = JStr ''https://example.org/users/alice/outbox''"
    by (simp_all add: alice_actor_def not_null_def read_prop_def field_def)
  have answers:
    "no_outbox_net (requests alice_before_outbox)
       (actor_request (JStr ''https://example.org/users/alice/outbox'')) =
       Inl (NoResponse ''ENOTFOUND'')"
    "no_page_net (requests alice_before_outbox)
       (actor_request (JStr ''https://example.org/users/alice/outbox'')) = Inr sample_outbox"
    "no_page_net
       (requests alice_before_outbox @
          [actor_request (JStr ''https://example.org/users/alice/outbox'')])
       (actor_request (JStr ''https://example.org/users/alice/outbox?page=true'')) =
       Inl (NoResponse ''ENOTFOUND'')"
    by (simp_all add: no_outbox_net_def no_page_net_def net_table_def actor_request_def)
  have outbox: "not_null sample_outbox"
    "js_or (read_prop sample_outbox ''totalItems'') (JStr ''unknown'') = JNum 5"
    "read_prop sample_outbox ''first'' = JStr ''https://example.org/users/alice/outbox?page=true''"
    by (simp_all add: sample_outbox_def not_null_def read_prop_def field_def js_or_def)
  have no_outbox:
    "analyzeActorComplete no_outbox_net quiet_printer ''alice@example.org'' world0 =
     (Inr JUndefined,
      alice_before_outbox
        \<lparr>requests := requests alice_before_outbox @
                         [actor_request (JStr ''https://example.org/users/alice/outbox'')],
         console := console alice_before_outbox @
           [(Log, FetchingOutbox (JStr ''https://example.org/users/alice/outbox'')),
            (Err, OutboxFailed (AxiosError (NoResponse ''ENOTFOUND'')))]\<rparr>)"
    using fetchActorOutbox_failures_contained
      [where net = no_outbox_net and p = quiet_printer and h = "''alice@example.org''"
         and w = world0 and actor = alice_actor and wb = alice_before_outbox
         and f = "NoResponse ''ENOTFOUND''"]
      before(1) actor answers(1)
    by simp
  have no_page:
    "analyzeActorComplete no_page_net quiet_printer ''alice@example.org'' world0 =
     (Inr JUndefined,
      alice_before_outbox
        \<lparr>requests := requests alice_before_outbox @
                         [actor_request (JStr ''https://example.org/users/alice/outbox''),
                          actor_request (JStr ''https://example.org/users/alice/outbox?page=true'')],
         console := console alice_before_outbox @
           [(Log, FetchingOutbox (JStr ''https://example.org/users/alice/outbox'')),
            (Log, OutboxFetched (JNum 5)),
            (Log, FirstPage (JStr ''https://example.org/users/alice/outbox?page=true'')),
            (Log, OutboxActivitiesFailed)]\<rparr>)"
    using fetchActorOutbox_failures_contained
      [where net = no_page_net and p = quiet_printer and h = "''alice@example.org''"
         and w = world0 and actor = alice_actor and wb = alice_before_outbox
         and f = "NoResponse ''ENOTFOUND''" and outbox = sample_outbox]
      before(2) actor answers(2,3) outbox
    by simp
  show ?thesis
    using direct before no_outbox no_page by simp
qed

section \<open>What the operations add to the world\<close>

lemma extends_ret: "extends R C (io_ret x)"
  unfolding extends_def io_ret_def
  by (intro allI exI [of _ "[]"]) simp

lemma extends_throw: "extends R C (io_throw e)"
  unfolding extends_def io_throw_def
  by (intro allI exI [of _ "[]"]) simp

lemma extends_lift: "extends R C (io_lift r)"
  unfolding extends_def io_lift_def
  by (intro allI exI [of _ "[]"]) simp

lemma extends_interpolate: "extends R C (interpolate v)"
  by (simp add: interpolate_def extends_ret extends_throw)

lemma extends_log: "C (Log, l) \<Longrightarrow> extends R C (console_log l)"
  unfolding extends_def console_log_def
  by (intro allI exI [of _ "[]"] exI [of _ "[(Log, l)]"]) simp

lemma extends_error: "C (Err, l) \<Longrightarrow> extends R C (console_error l)"
  unfolding extends_def console_error_def
  by (intro allI exI [of _ "[]"] exI [of _ "[(Err, l)]"]) simp

lemma extends_axios:
  "R \<lparr>url = u, headers = hs, timeout = t\<rparr> \<Longrightarrow> extends R C (axios_get net u hs t)"
  unfolding extends_def axios_get_def Let_def
  by (intro allI exI [of _ "[\<lparr>url = u, headers = hs, timeout = t\<rparr>]"] exI [of _ "[]"]) simp

lemma extends_bind:
  assumes "extends R C m" and "\<And>x. extends R C (f x)"
  shows "extends R C (io_bind m f)"
  unfolding extends_def
proof
  fix w
  obtain r w1 where mw: "m w = (r, w1)" by (cases "m w")
  from assms(1) obtain rs ls
    where w1: "w1 = w\<lparr>requests := requests w @ rs, console := console w @ ls\<rparr>"
      and ok: "list_all R rs" "list_all C ls"
    unfolding extends_def using mw by (metis snd_conv)
  show "\<exists>rs ls. snd (io_bind m f w) =
          w\<lparr>requests := requests w @ rs, console := console w @ ls\<rparr> \<and>
          list_all R rs \<and> list_all C ls"
  proof (cases r)
    case (Inl e)
    then show ?thesis using mw w1 ok by (auto simp: io_bind_def)
  next
    case (Inr x)
    from assms(2) [of x] obtain rs' ls'
      where w2: "snd (f x w1) = w1\<lparr>requests := requests w1 @ rs', console := console w1 @ ls'\<rparr>"
        and ok': "list_all R rs'" "list_all C ls'"
      unfolding extends_def by blast
    show ?thesis
      by (rule exI [of _ "rs @ rs'"], rule exI [of _ "ls @ ls'"])
         (use mw Inr w1 w2 ok ok' in \<open>simp add: io_bind_def\<close>)
  qed
qed

lemma extends_try:
  assumes "extends R C m" and "\<And>e. extends R C (handler e)"
  shows "extends R C (io_try m handler)"
  unfolding extends_def
proof
  fix w
  obtain r w1 where mw: "m w = (r, w1)" by (cases "m w")
  from assms(1) obtain rs ls
    where w1: "w1 = w\<lparr>requests := requests w @ rs, console := console w @ ls\<rparr>"
      and ok: "list_all R rs" "list_all C ls"
    unfolding extends_def using mw by (metis snd_conv)
  show "\<exists>rs ls. snd (io_try m handler w) =
          w\<lparr>requests := requests w @ rs, console := console w @ ls\<rparr> \<and>
          list_all R rs \<and> list_all C ls"
  proof (cases r)
    case (Inr x)
    then show ?thesis using mw w1 ok by (auto simp: io_try_def)
  next
    case (Inl e)
    from assms(2) [of e] obtain rs' ls'
      where w2: "snd (handler e w1) =
                   w1\<lparr>requests := requests w1 @ rs', console := console w1 @ ls'\<rparr>"
        and ok': "list_all R rs'" "list_all C ls'"
      unfolding extends_def by blast
    show ?thesis
      by (rule exI [of _ "rs @ rs'"], rule exI [of _ "ls @ ls'"])
         (use mw Inl w1 w2 ok ok' in \<open>simp add: io_try_def\<close>)
  qed
qed

lemma extends_weaken:
  assumes "extends R C m" and "\<And>l. C l \<Longrightarrow> C' l"
  shows "extends R C' m"
  using assms unfolding extends_def list_all_iff by metis

lemmas extends_rules = extends_bind extends_try extends_ret extends_throw extends_lift
  extends_interpolate extends_log extends_error extends_axios

lemma fixed_webfinger: "fixed_request \<lparr>url = u, headers = webfinger_headers, timeout = 10000\<rparr>"
  by (simp add: fixed_request_def webfinger_headers_def)

lemma fixed_actor: "fixed_request \<lparr>url = u, headers = actor_headers, timeout = 10000\<rparr>"
  by (simp add: fixed_request_def actor_headers_def)

lemma extends_discoverActor: "extends fixed_request stage_line (discoverActor net h)"
  unfolding discoverActor_def discoverActor_catch_def Let_def
  by (auto intro!: extends_rules fixed_webfinger simp: stage_line_def
      split: js_error.splits axios_failure.splits)

lemma extends_fetchActor: "extends fixed_request stage_line (fetchActor net u)"
  unfolding fetchActor_def
  by (auto intro!: extends_rules fixed_actor simp: stage_line_def)

lemma extends_analyzeActor: "extends fixed_request stage_line (analyzeActor p actor)"
  unfolding extends_def analyzeActor_def
  by (intro allI exI [of _ "[]"] exI [of _ "map (\<lambda>s. (Log, Analysis s)) (fst (p actor))"])
     (simp add: list_all_iff stage_line_def)

lemma extends_showActivity: "extends fixed_request stage_line (showActivity i a)"
  unfolding showActivity_def
  by (auto intro!: extends_rules simp: stage_line_def split: json.splits)

lemma extends_forEach: "extends fixed_request stage_line (forEach_from i xs)"
  by (induction xs arbitrary: i) (auto intro!: extends_rules extends_showActivity)

lemma extends_fetchFirstPage: "extends fixed_request stage_line (fetchFirstPage net first limit)"
  unfolding fetchFirstPage_def
  by (auto intro!: extends_rules extends_forEach fixed_actor simp: stage_line_def)

lemma extends_fetchActorOutbox: "extends fixed_request stage_line (fetchActorOutbox net u limit)"
  unfolding fetchActorOutbox_def Let_def
  by (auto intro!: extends_rules extends_fetchFirstPage fixed_actor simp: stage_line_def)

lemma any_lineI: "any_line l"
  by (simp add: any_line_def)

lemma extends_analyzeActorComplete:
  "extends fixed_request any_line (analyzeActorComplete net p h)"
  unfolding analyzeActorComplete_def
  by (auto intro!: extends_rules any_lineI
      extends_weaken [OF extends_discoverActor] extends_weaken [OF extends_fetchActor]
      extends_weaken [OF extends_analyzeActor] extends_weaken [OF extends_fetchActorOutbox])

lemma extends_runWebFingerTests_loop:
  "extends fixed_request any_line (runWebFingerTests_loop net accounts)"
  by (induction accounts)
     (auto intro!: extends_rules any_lineI extends_weaken [OF extends_discoverActor])

lemma extends_runActorTests_loop:
  "extends fixed_request any_line (runActorTests_loop net p accounts)"
  by (induction accounts)
     (auto intro!: extends_rules any_lineI extends_analyzeActorComplete)

lemma extends_fixed:
  assumes "extends fixed_request C m" and "list_all fixed_request (requests w)"
  shows "list_all fixed_request (requests (snd (m w)))"
proof -
  from assms(1) obtain rs ls
    where "snd (m w) = w\<lparr>requests := requests w @ rs, console := console w @ ls\<rparr>"
      and "list_all fixed_request rs"
    unfolding extends_def by blast
  with assms(2) show ?thesis by simp
qed

text \<open>
  C9: every request made by an operation of the pipeline (WebFinger discovery, actor
  fetch, outbox fetch with its first-page fetch, the complete analysis and the two loops
  over accounts) has a timeout of exactly 10 seconds, the one client identification string
  \<open>ActivityPub-Learning-Setup/1.0\<close>, and no header besides \<open>Accept\<close> and \<open>User-Agent\<close>,
  so nothing that authenticates or signs: if the requests made before an operation are
  such, so are all the requests made when it ends.
\<close>

theorem requests_fixed:
  assumes "list_all fixed_request (requests w)"
  shows "list_all fixed_request (requests (snd (discoverActor net h w))) \<and>
         list_all fixed_request (requests (snd (fetchActor net u w))) \<and>
         list_all fixed_request (requests (snd (fetchActorOutbox net u limit w))) \<and>
         list_all fixed_request (requests (snd (analyzeActorComplete net p h w))) \<and>
         list_all fixed_request (requests (snd (runWebFingerTests_loop net accounts w))) \<and>
         list_all fixed_request (requests (snd (runActorTests_loop net p accounts w)))"
  using assms
  by (intro conjI extends_fixed [OF extends_discoverActor] extends_fixed [OF extends_fetchActor]
        extends_fixed [OF extends_fetchActorOutbox] extends_fixed [OF extends_analyzeActorComplete]
        extends_fixed [OF extends_runWebFingerTests_loop]
        extends_fixed [OF extends_runActorTests_loop])

theorem requests_fixed_witness:
  "list_all fixed_request (requests world0) \<and>
   length (requests (snd (analyzeActorComplete alice_net quiet_printer
                            ''alice@example.org'' world0))) = 4 \<and>
   list_all fixed_request
     (requests (snd (analyzeActorComplete alice_net quiet_printer ''alice@example.org'' world0)))"
proof -
  have "requests (snd (analyzeActorComplete alice_net quiet_printer
                         ''alice@example.org'' world0)) =
          [webfinger_request ''example.org'' ''alice@example.org'',
           actor_request (JStr ''https://example.org/users/alice''),
           actor_request (JStr ''https://example.org/users/alice/outbox''),
           actor_request (JStr ''https://example.org/users/alice/outbox?page=true'')]"
    by (simp add: analyzeActorComplete_def discoverActor_def fetchActor_def analyzeActor_def
        fetchActorOutbox_def fetchFirstPage_def showActivity_def io_defs Let_def world0_def
        alice_net_def net_table_def alice_doc_def alice_actor_def sample_outbox_def
        sample_page_def sample_activities_def quiet_printer_def nth_opt_def falsy_str_def
        tpl_str_def extract_actorUrl_def page_activities_def js_or_def webfinger_request_def
        actor_request_def)
  then show ?thesis
    using requests_fixed [where w = world0 and net = alice_net and p = quiet_printer
        and h = "''alice@example.org''"]
    by (simp add: world0_def)
qed

section \<open>Loops over accounts\<close>

lemma discovered_append: "discovered (xs @ ys) = discovered xs @ discovered ys"
  by (induction xs rule: discovered.induct) auto

lemma analysed_append: "analysed (xs @ ys) = analysed xs @ analysed ys"
  by (induction xs rule: analysed.induct) auto

lemma analysed_stage_lines: "list_all stage_line ls \<Longrightarrow> analysed ls = []"
proof (induction ls)
  case Nil
  show ?case by simp
next
  case (Cons l ls)
  then have "analysed ([l] @ ls) = []"
    unfolding analysed_append by (simp add: stage_line_def)
  then show ?case by simp
qed

lemma discoverActor_discovered:
  "discovered (console (snd (discoverActor net h w))) = discovered (console w) @ [h]"
  by (auto simp: discoverActor_def discoverActor_catch_def io_defs Let_def discovered_append
      split: sum.splits prod.splits js_error.splits axios_failure.splits)

lemma runWebFingerTests_loop_step:
  "runWebFingerTests_loop net (account # rest) w =
     runWebFingerTests_loop net rest
       (let r = discoverActor net account (w\<lparr>console := console w @ [(Log, Rule 50)]\<rparr>)
        in (snd r)\<lparr>console := console (snd r) @
                      [(Log, case fst r of Inl e \<Rightarrow> Skipping account | Inr d \<Rightarrow> Blank)]\<rparr>)"
  by (simp add: io_bind_def io_try_def console_log_def Let_def split: prod.splits sum.splits)

lemma runWebFingerTests_loop_all:
  "fst (runWebFingerTests_loop net accounts w) = Inr () \<and>
   discovered (console (snd (runWebFingerTests_loop net accounts w))) =
     discovered (console w) @ accounts"
proof (induction accounts arbitrary: w)
  case Nil
  show ?case by (simp add: io_ret_def)
next
  case (Cons account rest)
  show ?case
    unfolding runWebFingerTests_loop_step
    by (simp add: Cons.IH Let_def discovered_append discoverActor_discovered split: sum.splits)
qed

lemma io_try_log:
  "io_try (io_bind (console_log l) k) handler w =
     io_try (k ()) handler (w\<lparr>console := console w @ [(Log, l)]\<rparr>)"
  by (simp add: io_try_def io_bind_def console_log_def)

lemma analyzeActorComplete_analysed:
  "analysed (console (snd (analyzeActorComplete net p h w))) = analysed (console w) @ [h]"
proof -
  define rest where
    "rest = io_try
       (io_bind (console_log (Rule 60)) (\<lambda>_.
        io_bind (discoverActor net h) (\<lambda>discovery.
        if \<not> truthy (actorUrl discovery)
        then io_bind (console_log NoActorUrl) (\<lambda>_. io_ret JUndefined)
        else
          io_bind (fetchActor net (actorUrl discovery)) (\<lambda>actor.
          io_bind (analyzeActor p actor) (\<lambda>_.
          io_bind (io_lift (getProp actor ''outbox'')) (\<lambda>outbox.
          io_bind (fetchActorOutbox net outbox (Some 3)) (\<lambda>_.
          io_ret JUndefined)))))))
       (\<lambda>error. io_bind (console_error (AnalysisFailed error)) (\<lambda>_. io_ret JUndefined))"
  define w0 where "w0 = w\<lparr>console := console w @ [(Log, CompleteAnalysis h)]\<rparr>"
  have run: "analyzeActorComplete net p h w = rest w0"
    unfolding analyzeActorComplete_def rest_def w0_def by (rule io_try_log)
  have "extends fixed_request stage_line rest"
    unfolding rest_def
    by (auto intro!: extends_rules extends_discoverActor extends_fetchActor
        extends_analyzeActor extends_fetchActorOutbox simp: stage_line_def)
  then obtain rs ls
    where "snd (rest w0) = w0\<lparr>requests := requests w0 @ rs, console := console w0 @ ls\<rparr>"
      and "list_all stage_line ls"
    unfolding extends_def by blast
  then show ?thesis
    by (simp add: run w0_def analysed_append analysed_stage_lines)
qed

lemma runActorTests_loop_step:
  "runActorTests_loop net p (account # rest) w =
     runActorTests_loop net p rest
       (let w' = snd (analyzeActorComplete net p account w)
        in w'\<lparr>console := console w' @ [(Log, Rule 80)]\<rparr>)"
  using analyzeActorComplete_returns [of net p account w]
  by (cases "analyzeActorComplete net p account w")
     (auto simp: io_bind_def console_log_def Let_def)

lemma runActorTests_loop_all:
  "fst (runActorTests_loop net p accounts w) = Inr () \<and>
   analysed (console (snd (runActorTests_loop net p accounts w))) =
     analysed (console w) @ accounts"
proof (induction accounts arbitrary: w)
  case Nil
  show ?case by (simp add: io_ret_def)
next
  case (Cons account rest)
  show ?case
    unfolding runActorTests_loop_step
    by (simp add: Cons.IH Let_def analysed_append analyzeActorComplete_analysed)
qed

lemma analyzeActorComplete_discovery_failed:
  "discoverActor net h (w\<lparr>console := console w @ [(Log, CompleteAnalysis h), (Log, Rule 60)]\<rparr>) =
     (Inl e, w1) \<Longrightarrow>
   analyzeActorComplete net p h w =
     (Inr JUndefined, w1\<lparr>console := console w1 @ [(Err, AnalysisFailed e)]\<rparr>)"
  by (simp add: analyzeActorComplete_def io_bind_def io_try_def io_ret_def console_log_def
      console_error_def)

lemma analyzeActorComplete_actor_failed:
  "discoverActor net h (w\<lparr>console := console w @ [(Log, CompleteAnalysis h), (Log, Rule 60)]\<rparr>) =
     (Inr d, w1) \<Longrightarrow> truthy (actorUrl d) \<Longrightarrow> fetchActor net (actorUrl d) w1 = (Inl e, w2) \<Longrightarrow>
   analyzeActorComplete net p h w =
     (Inr JUndefined, w2\<lparr>console := console w2 @ [(Err, AnalysisFailed e)]\<rparr>)"
  by (simp add: analyzeActorComplete_def io_bind_def io_try_def io_ret_def console_log_def
      console_error_def)

lemma runWebFingerTests_loop_append:
  "runWebFingerTests_loop net (xs @ ys) w =
     runWebFingerTests_loop net ys (snd (runWebFingerTests_loop net xs w))"
proof (induction xs arbitrary: w)
  case Nil
  show ?case by (simp add: io_ret_def)
next
  case (Cons x xs)
  show ?case
    unfolding append_Cons runWebFingerTests_loop_step by (rule Cons.IH)
qed

lemma runActorTests_loop_append:
  "runActorTests_loop net p (xs @ ys) w =
     runActorTests_loop net p ys (snd (runActorTests_loop net p xs w))"
proof (induction xs arbitrary: w)
  case Nil
  show ?case by (simp add: io_ret_def)
next
  case (Cons x xs)
  show ?case
    unfolding append_Cons runActorTests_loop_step by (rule Cons.IH)
qed

text \<open>
  C8: for every list of handles, the loop of \<open>runWebFingerTests\<close> and the loop of
  \<open>runActorTests\<close> never throw, and they begin the resolution of every handle of the list,
  in the order of the list: after any handles, whatever failed for them, the rest of the
  list is processed as the loop processes it. A failure of one handle ends the stages of
  that handle only: when discovery fails no further stage runs, when the actor fetch fails
  no later stage runs, the failure is printed and the analysis of the handle returns
  normally.
\<close>

theorem batch_isolation:
  "fst (runWebFingerTests_loop net accounts w) = Inr () \<and>
   discovered (console (snd (runWebFingerTests_loop net accounts w))) =
     discovered (console w) @ accounts \<and>
   runWebFingerTests_loop net (before @ after) w =
     runWebFingerTests_loop net after (snd (runWebFingerTests_loop net before w)) \<and>
   fst (runActorTests_loop net p accounts w) = Inr () \<and>
   analysed (console (snd (runActorTests_loop net p accounts w))) =
     analysed (console w) @ accounts \<and>
   runActorTests_loop net p (before @ after) w =
     runActorTests_loop net p after (snd (runActorTests_loop net p before w)) \<and>
   (let r1 = discoverActor net h
               (w\<lparr>console := console w @ [(Log, CompleteAnalysis h), (Log, Rule 60)]\<rparr>)
    in (fst r1 = Inl e \<longrightarrow>
          analyzeActorComplete net p h w =
            (Inr JUndefined, (snd r1)\<lparr>console := console (snd r1) @ [(Err, AnalysisFailed e)]\<rparr>)) \<and>
       (fst r1 = Inr d \<and> truthy (actorUrl d) \<longrightarrow>
          (let r2 = fetchActor net (actorUrl d) (snd r1)
           in fst r2 = Inl e \<longrightarrow>
                analyzeActorComplete net p h w =
                  (Inr JUndefined,
                   (snd r2)\<lparr>console := console (snd r2) @ [(Err, AnalysisFailed e)]\<rparr>))))"
proof -
  define r1 where
    "r1 = discoverActor net h
            (w\<lparr>console := console w @ [(Log, CompleteAnalysis h), (Log, Rule 60)]\<rparr>)"
  have a: "analyzeActorComplete net p h w =
             (Inr JUndefined, (snd r1)\<lparr>console := console (snd r1) @ [(Err, AnalysisFailed e)]\<rparr>)"
    if "fst r1 = Inl e"
    using that analyzeActorComplete_discovery_failed [of net h w e "snd r1" p]
    by (cases r1) (simp add: r1_def)
  have b: "analyzeActorComplete net p h w =
             (Inr JUndefined,
              (snd (fetchActor net (actorUrl d) (snd r1)))
                \<lparr>console := console (snd (fetchActor net (actorUrl d) (snd r1))) @
                              [(Err, AnalysisFailed e)]\<rparr>)"
    if "fst r1 = Inr d" and "truthy (actorUrl d)"
      and "fst (fetchActor net (actorUrl d) (snd r1)) = Inl e"
    using that
      analyzeActorComplete_actor_failed
        [of net h w d "snd r1" e "snd (fetchActor net (actorUrl d) (snd r1))" p]
    by (cases r1; cases "fetchActor net (actorUrl d) (snd r1)") (simp add: r1_def)
  show ?thesis
    using a b
    by (simp add: runWebFingerTests_loop_all runActorTests_loop_all
        runWebFingerTests_loop_append runActorTests_loop_append Let_def r1_def)
qed

theorem batch_isolation_witness:
  "discovered (console (snd (runWebFingerTests_loop alice_net [''bob'', ''alice@example.org'']
                               world0))) = [''bob'', ''alice@example.org''] \<and>
   analysed (console (snd (runActorTests_loop alice_net quiet_printer
                             [''bob'', ''alice@example.org''] world0))) =
     [''bob'', ''alice@example.org''] \<and>
   analyzeActorComplete alice_net quiet_printer ''bob'' world0 =
     (Inr JUndefined,
      \<lparr>requests = [],
       console = [(Log, CompleteAnalysis ''bob''), (Log, Rule 60), (Log, Discovering ''bob''),
                  (Err, AnalysisFailed InvalidHandleFormat)]\<rparr>) \<and>
   fst (analyzeActorComplete webfinger_only_net quiet_printer ''alice@example.org'' world0) =
     Inr JUndefined \<and>
   requests (snd (analyzeActorComplete webfinger_only_net quiet_printer ''alice@example.org''
                    world0)) =
     [webfinger_request ''example.org'' ''alice@example.org'',
      actor_request (JStr ''https://example.org/users/alice'')] \<and>
   last (console (snd (analyzeActorComplete webfinger_only_net quiet_printer
                         ''alice@example.org'' world0))) =
     (Err, AnalysisFailed (AxiosError (NoResponse ''ENOTFOUND'')))"
proof -
  note first = batch_isolation
    [where net = alice_net and p = quiet_printer and w = world0
       and accounts = "[''bob'', ''alice@example.org'']" and h = "''bob''"
       and e = InvalidHandleFormat]
  note second = batch_isolation
    [where net = webfinger_only_net and p = quiet_printer and w = world0
       and h = "''alice@example.org''"
       and d = "\<lparr>handle = ''alice@example.org'', webfingerData = alice_doc,
                  actorUrl = JStr ''https://example.org/users/alice''\<rparr>"
       and e = "AxiosError (NoResponse ''ENOTFOUND'')"]
  have loops:
    "discovered (console (snd (runWebFingerTests_loop alice_net [''bob'', ''alice@example.org'']
                                 world0))) = [''bob'', ''alice@example.org'']"
    "analysed (console (snd (runActorTests_loop alice_net quiet_printer
                               [''bob'', ''alice@example.org''] world0))) =
       [''bob'', ''alice@example.org'']"
    using first by (simp_all add: world0_def)
  have "malformed_handle ''bob''"
    by (simp add: malformed_handle_def)
  then have bob: "analyzeActorComplete alice_net quiet_printer ''bob'' world0 =
     (Inr JUndefined,
      \<lparr>requests = [],
       console = [(Log, CompleteAnalysis ''bob''), (Log, Rule 60), (Log, Discovering ''bob''),
                  (Err, AnalysisFailed InvalidHandleFormat)]\<rparr>)"
    using first by (simp add: Let_def discoverActor_malformed world0_def)
  define w1 where
    "w1 = world0\<lparr>console := console world0 @
                   [(Log, CompleteAnalysis ''alice@example.org''), (Log, Rule 60)]\<rparr>"
  have ok: "\<not> malformed_handle ''alice@example.org''"
    by (simp add: malformed_handle_def first_segment_def second_segment_def)
  have seg: "second_segment ''alice@example.org'' = ''example.org''"
    by (simp add: second_segment_def)
  have "extract_actorUrl alice_doc = Inr (JStr ''https://example.org/users/alice'')"
    by (simp add: extract_actorUrl_def alice_doc_def)
  then have found: "fst (discoverActor webfinger_only_net ''alice@example.org'' w1) =
      Inr \<lparr>handle = ''alice@example.org'', webfingerData = alice_doc,
           actorUrl = JStr ''https://example.org/users/alice''\<rparr>"
    by (intro discoverActor_success [OF ok])
       (simp_all add: seg webfinger_only_net_def net_table_def webfinger_request_def)
  have asked: "requests (snd (discoverActor webfinger_only_net ''alice@example.org'' w1)) =
      [webfinger_request ''example.org'' ''alice@example.org'']"
    using discoverActor_requests [OF ok, of webfinger_only_net w1]
    by (simp add: seg w1_def world0_def)
  have actor: "fetchActor webfinger_only_net (JStr ''https://example.org/users/alice'') v =
      (Inl (AxiosError (NoResponse ''ENOTFOUND'')),
       v\<lparr>requests := requests v @ [actor_request (JStr ''https://example.org/users/alice'')],
         console := console v @
           [(Log, FetchingActor (JStr ''https://example.org/users/alice'')),
            (Err, ActorFetchFailed (JStr ''https://example.org/users/alice'')),
            (Err, ErrorMessage (AxiosError (NoResponse ''ENOTFOUND'')))]\<rparr>)" for v
    by (simp add: fetchActor_def io_defs webfinger_only_net_def net_table_def actor_request_def)
  have alice:
    "fst (analyzeActorComplete webfinger_only_net quiet_printer ''alice@example.org'' world0) =
       Inr JUndefined"
    "requests (snd (analyzeActorComplete webfinger_only_net quiet_printer ''alice@example.org''
                      world0)) =
       [webfinger_request ''example.org'' ''alice@example.org'',
        actor_request (JStr ''https://example.org/users/alice'')]"
    "last (console (snd (analyzeActorComplete webfinger_only_net quiet_printer
                           ''alice@example.org'' world0))) =
       (Err, AnalysisFailed (AxiosError (NoResponse ''ENOTFOUND'')))"
    using second found asked unfolding Let_def w1_def [symmetric]
    by (simp_all add: actor)
  show ?thesis
    using loops bob alice by simp
qed

end
